theory Spec2Isabelle
  imports Complex_Main "HOL-Library.AList"
begin

section \<open>Values, errors and constants of \<^verbatim>\<open>publicamundi/data/api/base.py\<close>\<close>

text \<open>
  The query executor works on JSON documents decoded into Python values, where the
  decoder has already replaced every object with \<^verbatim>\<open>type\<close> and \<^verbatim>\<open>coordinates\<close> by a
  shapely geometry. A geometry is identified here by the text that
  \<^verbatim>\<open>shapely.wkt.dumps\<close> gives for it. Dictionaries are association lists with unique
  keys, read with \<^const>\<open>map_of\<close> and written with \<^const>\<open>AList.update\<close>; the model iterates
  them in insertion order (Python 2 iterates a dict in an order of its own, which no
  statement below relies on). Floats are the rationals they denote.
\<close>

datatype geometry = Geometry string

datatype pyval =
    PNone
  | PBool bool
  | PInt int
  | PFloat rat
  | PStr string
  | PList "pyval list"
  | PDict "(string \<times> pyval) list"
  | PGeom geometry

text \<open>
  \<^verbatim>\<open>DataException\<close> carries its message; a message built with \<^verbatim>\<open>format\<close> is kept as
  its template. The other constructors are the Python exceptions that the code can run
  into; \<^verbatim>\<open>execute\<close> turns them into a \<^verbatim>\<open>DataException\<close>. \<open>Unmodelled\<close> marks an input
  outside the documents modelled here: a \<^verbatim>\<open>name\<close>, \<^verbatim>\<open>alias\<close> or \<^verbatim>\<open>resource\<close> entry
  that is not a string.
\<close>

datatype error =
    DataException string
  | KeyError
  | TypeError
  | AttributeError
  | DBAPIError bool
  | Unmodelled

definition QUERY_FORMAT_JSON :: string where "QUERY_FORMAT_JSON = ''JSON''"
definition QUERY_FORMAT_GEOJSON :: string where "QUERY_FORMAT_GEOJSON = ''GeoJSON''"
definition CRS_DEFAULT_DATABASE :: int where "CRS_DEFAULT_DATABASE = 2100"
definition CRS_DEFAULT_OUTPUT :: int where "CRS_DEFAULT_OUTPUT = 3857"
definition MAX_RESULT_ROWS :: int where "MAX_RESULT_ROWS = 10000"
definition DEFAULT_SQL_TIMEOUT :: int where "DEFAULT_SQL_TIMEOUT = 30000"

subsection \<open>Numbers\<close>

text \<open>
  \<^verbatim>\<open>isinstance(v, numbers.Number)\<close>: integers, floats and booleans (\<^verbatim>\<open>bool\<close> is a
  subclass of \<^verbatim>\<open>int\<close>). \<open>num_val\<close> is the value Python compares.
\<close>

fun is_number :: "pyval \<Rightarrow> bool" where
  "is_number (PInt _) = True"
| "is_number (PFloat _) = True"
| "is_number (PBool _) = True"
| "is_number _ = False"

fun num_val :: "pyval \<Rightarrow> rat" where
  "num_val (PInt i) = of_int i"
| "num_val (PFloat r) = r"
| "num_val (PBool b) = (if b then 1 else 0)"
| "num_val _ = 0"

section \<open>Limit and offset (\<^verbatim>\<open>_execute_query\<close>, lines 186--212)\<close>

definition get_limit :: "(string \<times> pyval) list \<Rightarrow> error + pyval" where
  "get_limit q =
     (case map_of q ''limit'' of
        None \<Rightarrow> Inr (PInt MAX_RESULT_ROWS)
      | Some v \<Rightarrow>
          if \<not> is_number v then Inl (DataException ''Parameter limit must be a number.'')
          else if num_val v < of_int MAX_RESULT_ROWS \<and> num_val v > 0 then Inr v
          else Inr (PInt MAX_RESULT_ROWS))"

definition get_offset :: "(string \<times> pyval) list \<Rightarrow> error + pyval" where
  "get_offset q =
     (case map_of q ''offset'' of
        None \<Rightarrow> Inr (PInt 0)
      | Some v \<Rightarrow>
          if \<not> is_number v then Inl (DataException ''Parameter offset must be a number.'')
          else if num_val v \<ge> 0 then Inr v
          else Inr (PInt 0))"

section \<open>Text of numbers and values\<close>

text \<open>
  \<open>str_int\<close> is the decimal text that \<^verbatim>\<open>format\<close> and \<^verbatim>\<open>str\<close> give for an integer.
  The text of a float, of a list and of the other values is left to the environment
  (\<open>text_of\<close>). Strings are ASCII text.
\<close>

fun str_nat :: "nat \<Rightarrow> string" where
  "str_nat n =
     (if n < 10 then [''0123456789'' ! n]
      else str_nat (n div 10) @ [''0123456789'' ! (n mod 10)])"

declare str_nat.simps [simp del]

definition str_int :: "int \<Rightarrow> string" where
  "str_int i = (if i < 0 then CHR ''-'' # str_nat (nat (- i)) else str_nat (nat i))"

fun join :: "string \<Rightarrow> string list \<Rightarrow> string" where
  "join sep [] = []"
| "join sep [x] = x"
| "join sep (x # y # ys) = x @ sep @ join sep (y # ys)"

text \<open>
  Python's \<^verbatim>\<open>int(x)\<close> on a float truncates towards zero.
\<close>

definition py_int :: "rat \<Rightarrow> int" where
  "py_int x = (if 0 \<le> x then \<lfloor>x\<rfloor> else \<lceil>x\<rceil>)"

section \<open>Configuration, catalog and the two databases\<close>

text \<open>
  The configuration is the dict \<^verbatim>\<open>config\<close>; an absent key is \<open>None\<close>. The timeout is
  an integer number of milliseconds.
\<close>

record config =
  sqlalchemy_catalog :: "string option"
  sqlalchemy_vectorstore :: "string option"
  timeout :: "int option"

text \<open>A row of the catalog query of \<^verbatim>\<open>getResources\<close> and the stub made from it.\<close>

record catalog_row =
  db_resource_id :: string
  row_package_title :: "string option"
  row_package_notes :: "string option"
  row_resource_name :: "string option"
  wms_resource_id :: "string option"
  row_geometry_type :: "string option"
  row_wms_server :: "string option"
  row_wms_layer :: "string option"

record resource_stub =
  table :: string
  resource_name :: "string option"
  package_title :: "string option"
  package_notes :: "string option"
  wms :: "string option"
  wms_server :: "string option"
  wms_layer :: "string option"
  geometry_type :: "string option"

text \<open>A row of the introspection query of \<^verbatim>\<open>describeResource\<close>.\<close>

record column =
  col_name :: string
  col_type :: string
  col_srid :: "int option"

record field =
  f_name :: string
  f_type :: string

text \<open>
  An entry of \<^verbatim>\<open>context['resources']\<close> is the stub's dict. Resolving a resource writes
  four more keys into that same dict: \<^verbatim>\<open>alias\<close>, \<^verbatim>\<open>srid\<close>, \<^verbatim>\<open>geometry_column\<close> and
  \<^verbatim>\<open>fields\<close>; \<open>None\<close> is a key not written yet. An entry of the metadata dict is such a
  dict with all four keys (\<open>descriptor\<close>); the code stores the very object of
  \<^verbatim>\<open>context['resources']\<close> there, so the model writes the same values to both maps.
\<close>

record resource =
  stub :: resource_stub
  alias_key :: "string option"
  srid_key :: "int option option"
  geometry_column_key :: "string option option"
  fields_key :: "(string \<times> field) list option"

record descriptor =
  d_stub :: resource_stub
  d_alias :: string
  d_srid :: "int option"
  d_geometry_column :: "string option"
  d_fields :: "(string \<times> field) list"

text \<open>
  What the code cannot compute by itself: the rows of the catalog query, the rows of the
  introspection query for a table, the rows of a compiled statement together with the
  seconds \<^verbatim>\<open>time.time()\<close> measured around it, the geometry that
  \<^verbatim>\<open>shapely.wkb.loads\<close> decodes from a hex string, and the text of values.
\<close>

record environment =
  catalog_rows :: "error + catalog_row list"
  table_columns :: "string \<Rightarrow> error + column list"
  run_sql :: "string \<Rightarrow> pyval list \<Rightarrow> error + ((string \<times> pyval) list list \<times> rat)"
  wkb_loads :: "string \<Rightarrow> error + geometry"
  text_of :: "pyval \<Rightarrow> string"

definition py_str :: "environment \<Rightarrow> pyval \<Rightarrow> string" where
  "py_str env v =
     (case v of
        PStr s \<Rightarrow> s
      | PInt i \<Rightarrow> str_int i
      | PBool b \<Rightarrow> (if b then ''True'' else ''False'')
      | PNone \<Rightarrow> ''None''
      | _ \<Rightarrow> text_of env v)"

definition wkt_dumps :: "geometry \<Rightarrow> string" where
  "wkt_dumps g = (case g of Geometry w \<Rightarrow> w)"

subsection \<open>Sequencing of steps that may raise\<close>

definition bind_err :: "error + 'a \<Rightarrow> ('a \<Rightarrow> error + 'b) \<Rightarrow> error + 'b" where
  "bind_err m f = (case m of Inl e \<Rightarrow> Inl e | Inr x \<Rightarrow> f x)"

text \<open>
  A step that may also change an object returns the object as it is left, on a raise
  too.
\<close>

definition bind_st ::
  "(error + 'a) \<times> 's \<Rightarrow> ('a \<Rightarrow> 's \<Rightarrow> (error + 'b) \<times> 's) \<Rightarrow> (error + 'b) \<times> 's" where
  "bind_st m f = (case m of (Inl e, s) \<Rightarrow> (Inl e, s) | (Inr x, s) \<Rightarrow> f x s)"

subsection \<open>\<^verbatim>\<open>getResources\<close> (lines 944--1025)\<close>

definition stub_of_row :: "catalog_row \<Rightarrow> resource" where
  "stub_of_row r =
     \<lparr> stub = \<lparr> table = db_resource_id r,
                resource_name = row_resource_name r,
                package_title = row_package_title r,
                package_notes = row_package_notes r,
                wms = wms_resource_id r,
                wms_server = row_wms_server r,
                wms_layer = row_wms_layer r,
                geometry_type = row_geometry_type r \<rparr>,
       alias_key = None, srid_key = None, geometry_column_key = None, fields_key = None \<rparr>"

fun collect_resources ::
  "(string \<times> resource) list \<Rightarrow> catalog_row list \<Rightarrow> (string \<times> resource) list" where
  "collect_resources result [] = result"
| "collect_resources result (r # rs) =
     collect_resources (AList.update (db_resource_id r) (stub_of_row r) result) rs"

definition getResources :: "environment \<Rightarrow> error + (string \<times> resource) list" where
  "getResources env = bind_err (catalog_rows env) (\<lambda>rows. Inr (collect_resources [] rows))"

subsection \<open>\<^verbatim>\<open>describeResource\<close> (lines 1027--1084)\<close>

record description =
  desc_fields :: "(string \<times> field) list"
  desc_srid :: "int option"
  desc_geometry_column :: "string option"

definition startswith_underscore :: "string \<Rightarrow> bool" where
  "startswith_underscore s = (case s of [] \<Rightarrow> False | c # _ \<Rightarrow> c = CHR ''_'')"

fun describe_columns :: "description \<Rightarrow> column list \<Rightarrow> error + description" where
  "describe_columns acc [] = Inr acc"
| "describe_columns acc (c # cs) =
     (if startswith_underscore (col_name c) then describe_columns acc cs
      else
        let acc1 = acc\<lparr>desc_fields :=
                     AList.update (col_name c) \<lparr>f_name = col_name c, f_type = col_type c\<rparr>
                       (desc_fields acc)\<rparr>
        in (case col_srid c of
              None \<Rightarrow> describe_columns acc1 cs
            | Some s \<Rightarrow>
                if desc_srid acc1 \<noteq> None
                then Inl (DataException ''More than 1 geometry columns found in resource {id}'')
                else describe_columns
                       (acc1\<lparr>desc_geometry_column := Some (col_name c), desc_srid := Some s\<rparr>) cs))"

definition describeResource :: "environment \<Rightarrow> string \<Rightarrow> error + description" where
  "describeResource env ident =
     bind_err (table_columns env ident)
       (describe_columns \<lparr>desc_fields = [], desc_srid = None, desc_geometry_column = None\<rparr>)"

section \<open>The execution context\<close>

text \<open>
  A call of \<^verbatim>\<open>connection_data.execute\<close>: with the text
  \<^verbatim>\<open>SET LOCAL statement_timeout TO {0};\<close> formatted with a number of milliseconds, or with
  a compiled statement and its tuple of values.
\<close>

datatype db_call = SetStatementTimeout int | Execute string "pyval list"

text \<open>
  The dict \<^verbatim>\<open>context\<close> of \<^verbatim>\<open>execute\<close>, without the engine and connection objects.
  \<open>statements\<close> is not a key of the dict: it records, in order, the calls of
  \<^verbatim>\<open>connection_data.execute\<close> that the batch has made.
\<close>

record execution_context =
  query :: pyval
  output_format :: string
  crs :: int
  resources :: "(string \<times> resource) list"
  metadata :: "(string \<times> descriptor) list"
  elapsed_time :: rat
  statements :: "db_call list"

section \<open>Compiling a query (\<^verbatim>\<open>_execute_query\<close>, lines 174--495)\<close>

text \<open>
  A \<^verbatim>\<open>name\<close>, \<^verbatim>\<open>alias\<close> or \<^verbatim>\<open>resource\<close> entry of a document is a string; a
  \<^verbatim>\<open>resource\<close> entry may also be \<^verbatim>\<open>None\<close> where the code tests for it.
\<close>

definition str_slot :: "pyval \<Rightarrow> error + string" where
  "str_slot v = (case v of PStr s \<Rightarrow> Inr s | _ \<Rightarrow> Inl Unmodelled)"

definition opt_str_slot :: "pyval \<Rightarrow> error + string option" where
  "opt_str_slot v = (case v of PStr s \<Rightarrow> Inr (Some s) | PNone \<Rightarrow> Inr None | _ \<Rightarrow> Inl Unmodelled)"

subsection \<open>Resources (lines 214--280)\<close>

text \<open>
  The locals of the loop over \<^verbatim>\<open>query['resources']\<close>: \<^verbatim>\<open>parsed_query['resources']\<close>
  (name to table and alias), \<^verbatim>\<open>query_metadata\<close> and \<^verbatim>\<open>resource_mapping\<close>.
\<close>

record resolved =
  parsed_resources :: "(string \<times> string \<times> string) list"
  query_metadata :: "(string \<times> descriptor) list"
  resource_mapping :: "(string \<times> string) list"

definition resource_ref :: "pyval \<Rightarrow> error + (string \<times> string)" where
  "resource_ref query_resource =
     (case query_resource of
        PDict d \<Rightarrow>
          (case map_of d ''name'' of
             None \<Rightarrow> Inl (DataException ''Resource name is missing.'')
           | Some n \<Rightarrow>
               bind_err (str_slot n) (\<lambda>res_name.
                 case map_of d ''alias'' of
                   None \<Rightarrow> Inr (res_name, res_name)
                 | Some a \<Rightarrow>
                     bind_err (str_slot a) (\<lambda>res_alias. Inr (res_name, res_alias))))
      | PStr s \<Rightarrow> Inr (s, s)
      | _ \<Rightarrow> Inl (DataException
                 ''Resource parameter is malformed. Instance of string or dictionary is expected.''))"

definition add_resource :: "string \<Rightarrow> string \<Rightarrow> descriptor \<Rightarrow> resolved \<Rightarrow> resolved" where
  "add_resource res_name res_alias db_resource st =
     \<lparr> parsed_resources =
         AList.update res_name (table (d_stub db_resource), d_alias db_resource)
           (parsed_resources st),
       query_metadata = AList.update res_name db_resource (query_metadata st),
       resource_mapping =
         AList.update res_alias res_name
           (AList.update res_name res_name (resource_mapping st)) \<rparr>"

definition resolve_resource ::
  "environment \<Rightarrow> pyval \<Rightarrow> resolved \<Rightarrow> execution_context
     \<Rightarrow> (error + resolved) \<times> execution_context" where
  "resolve_resource env query_resource st ctx =
     (case resource_ref query_resource of
        Inl e \<Rightarrow> (Inl e, ctx)
      | Inr (res_name, res_alias) \<Rightarrow>
          (case map_of (resources ctx) res_name of
             None \<Rightarrow> (Inl (DataException ''Resource {resource} does not exist.''), ctx)
           | Some db_resource \<Rightarrow>
               (case map_of (metadata ctx) res_name of
                  Some d \<Rightarrow> (Inr (add_resource res_name res_alias d st), ctx)
                | None \<Rightarrow>
                    let a = ''t'' @ str_nat (length (metadata ctx) + 1);
                        r1 = db_resource\<lparr>alias_key := Some a\<rparr>;
                        ctx1 = ctx\<lparr>resources := AList.update res_name r1 (resources ctx)\<rparr>
                    in (case describeResource env res_name of
                          Inl e \<Rightarrow> (Inl e, ctx1)
                        | Inr db_fields \<Rightarrow>
                            let r2 = r1\<lparr>srid_key := Some (desc_srid db_fields),
                                        geometry_column_key := Some (desc_geometry_column db_fields),
                                        fields_key := Some (desc_fields db_fields)\<rparr>;
                                d = \<lparr> d_stub = stub db_resource, d_alias = a,
                                      d_srid = desc_srid db_fields,
                                      d_geometry_column = desc_geometry_column db_fields,
                                      d_fields = desc_fields db_fields \<rparr>;
                                ctx2 = ctx1\<lparr>resources := AList.update res_name r2 (resources ctx1),
                                            metadata := AList.update res_name d (metadata ctx1)\<rparr>
                            in (Inr (add_resource res_name res_alias d st), ctx2)))))"

fun resolve_resources ::
  "environment \<Rightarrow> pyval list \<Rightarrow> resolved \<Rightarrow> execution_context
     \<Rightarrow> (error + resolved) \<times> execution_context" where
  "resolve_resources env [] st ctx = (Inr st, ctx)"
| "resolve_resources env (r # rs) st ctx =
     (case resolve_resource env r st ctx of
        (Inl e, ctx1) \<Rightarrow> (Inl e, ctx1)
      | (Inr st1, ctx1) \<Rightarrow> resolve_resources env rs st1 ctx1)"

definition get_resources ::
  "environment \<Rightarrow> (string \<times> pyval) list \<Rightarrow> execution_context
     \<Rightarrow> (error + resolved) \<times> execution_context" where
  "get_resources env q ctx =
     (case map_of q ''resources'' of
        None \<Rightarrow> (Inl (DataException ''No resource selected.''), ctx)
      | Some (PList rs) \<Rightarrow>
          resolve_resources env rs
            \<lparr>parsed_resources = [], query_metadata = [], resource_mapping = []\<rparr> ctx
      | Some _ \<Rightarrow>
          (Inl (DataException ''Parameter resource should be a list with at least one item.''), ctx))"

subsection \<open>Fields (lines 282--372)\<close>

record parsed_field =
  fullname :: string
  pf_name :: string
  pf_alias :: string
  pf_type :: string
  is_geom :: bool
  pf_srid :: "int option"

definition get_resources_by_field_name ::
  "(string \<times> descriptor) list \<Rightarrow> string \<Rightarrow> string list" where
  "get_resources_by_field_name md fld =
     map fst (filter (\<lambda>(resource, d). map_of (d_fields d) fld \<noteq> None) md)"

definition all_fields :: "(string \<times> descriptor) list \<Rightarrow> pyval list" where
  "all_fields qmd =
     concat (map (\<lambda>(resource, d).
               map (\<lambda>(fld, fd). PDict [(''resource'', PStr resource), (''name'', PStr (f_name fd))])
                 (d_fields d)) qmd)"

text \<open>
  When \<^verbatim>\<open>fields\<close> is absent or an empty list, the expanded list is stored under
  \<^verbatim>\<open>query['fields']\<close>; the result is the query as it is left and its list of fields.
\<close>

definition expand_fields ::
  "(string \<times> descriptor) list \<Rightarrow> (string \<times> pyval) list
     \<Rightarrow> error + ((string \<times> pyval) list \<times> pyval list)" where
  "expand_fields qmd q =
     (case map_of q ''fields'' of
        None \<Rightarrow> Inr (AList.update ''fields'' (PList (all_fields qmd)) q, all_fields qmd)
      | Some (PList fs) \<Rightarrow>
          if length fs = 0
          then Inr (AList.update ''fields'' (PList (all_fields qmd)) q, all_fields qmd)
          else Inr (q, fs)
      | Some _ \<Rightarrow> Inl (DataException ''Parameter fields should be a list.''))"

definition field_ref :: "pyval \<Rightarrow> error + (string \<times> string \<times> string option)" where
  "field_ref fe =
     (case fe of
        PDict d \<Rightarrow>
          (case map_of d ''name'' of
             None \<Rightarrow> Inl (DataException ''Field name is missing.'')
           | Some n \<Rightarrow>
               bind_err (str_slot n) (\<lambda>field_name.
               bind_err (case map_of d ''alias'' of None \<Rightarrow> Inr field_name | Some a \<Rightarrow> str_slot a)
                 (\<lambda>field_alias.
               bind_err (case map_of d ''resource'' of None \<Rightarrow> Inr None | Some r \<Rightarrow> opt_str_slot r)
                 (\<lambda>field_resource. Inr (field_name, field_alias, field_resource)))))
      | PStr s \<Rightarrow> Inr (s, s, None)
      | _ \<Rightarrow> Inl (DataException
                 ''Field is malformed. Instance of string or dictionary is expected.''))"

definition infer_resource ::
  "(string \<times> descriptor) list \<Rightarrow> string \<Rightarrow> string \<Rightarrow> string \<Rightarrow> error + string" where
  "infer_resource qmd fld msg_none msg_many =
     (case get_resources_by_field_name qmd fld of
        [] \<Rightarrow> Inl (DataException msg_none)
      | [r] \<Rightarrow> Inr r
      | _ \<Rightarrow> Inl (DataException msg_many))"

definition mapped_resource ::
  "(string \<times> descriptor) list \<Rightarrow> (string \<times> string) list \<Rightarrow> string \<Rightarrow> descriptor option" where
  "mapped_resource qmd mp r =
     (case map_of mp r of None \<Rightarrow> None | Some res_name \<Rightarrow> map_of qmd res_name)"

definition qualified_name :: "string \<Rightarrow> string \<Rightarrow> string" where
  "qualified_name tbl fld = tbl @ ''.'' @ [CHR 0x22] @ fld @ [CHR 0x22]"

definition get_field ::
  "(string \<times> descriptor) list \<Rightarrow> (string \<times> string) list \<Rightarrow> (string \<times> parsed_field) list
     \<Rightarrow> pyval \<Rightarrow> error + (string \<times> parsed_field) list" where
  "get_field qmd mp parsed fe =
     bind_err (field_ref fe) (\<lambda>(field_name, field_alias, field_resource0).
     bind_err (case field_resource0 of
                 Some r \<Rightarrow> Inr r
               | None \<Rightarrow> infer_resource qmd field_name ''Field {field} does not exist.''
                           ''Field {field} is ambiguous for resources {resources}.'')
       (\<lambda>field_resource.
          case mapped_resource qmd mp field_resource of
            None \<Rightarrow> Inl (DataException ''Resource {resource} for field {field} does not exist.'')
          | Some db_resource \<Rightarrow>
              (case map_of (d_fields db_resource) field_name of
                 None \<Rightarrow> Inl (DataException ''Field {field} does not exist in resource {resource}.'')
               | Some db_field \<Rightarrow>
                   if map_of parsed field_alias \<noteq> None
                   then Inl (DataException ''Field {field} in resource {resource} is ambiguous.'')
                   else Inr (AList.update field_alias
                          \<lparr> fullname = qualified_name (d_alias db_resource) (f_name db_field),
                            pf_name = f_name db_field,
                            pf_alias = field_alias,
                            pf_type = f_type db_field,
                            is_geom = (Some (f_name db_field) = d_geometry_column db_resource),
                            pf_srid = (if Some (f_name db_field) = d_geometry_column db_resource
                                       then d_srid db_resource else None) \<rparr>
                          parsed))))"

fun get_fields ::
  "(string \<times> descriptor) list \<Rightarrow> (string \<times> string) list \<Rightarrow> (string \<times> parsed_field) list
     \<Rightarrow> pyval list \<Rightarrow> error + (string \<times> parsed_field) list" where
  "get_fields qmd mp parsed [] = Inr parsed"
| "get_fields qmd mp parsed (fe # fes) =
     (case get_field qmd mp parsed fe of
        Inl e \<Rightarrow> Inl e
      | Inr parsed1 \<Rightarrow> get_fields qmd mp parsed1 fes)"

text \<open>
  Lines 374--380: \<^verbatim>\<open>reduce\<close> without an initial value raises \<^verbatim>\<open>TypeError\<close> on an
  empty list.
\<close>

definition check_geom_columns ::
  "string \<Rightarrow> (string \<times> parsed_field) list \<Rightarrow> error + unit" where
  "check_geom_columns fmt parsed =
     (if fmt = QUERY_FORMAT_GEOJSON then
        (if parsed = [] then Inl TypeError
         else if sum_list (map (\<lambda>(a, pf). if is_geom pf then (1::nat) else 0) parsed) \<noteq> 1
         then Inl (DataException ''Format {format} requires exactly one geometry column'')
         else Inr ())
      else Inr ())"

subsection \<open>Order by (lines 390--447)\<close>

definition sort_ref :: "pyval \<Rightarrow> error + (string \<times> string option \<times> bool)" where
  "sort_ref se =
     (case se of
        PDict d \<Rightarrow>
          (case map_of d ''name'' of
             None \<Rightarrow> Inl (DataException ''Sorting field name is missing.'')
           | Some n \<Rightarrow>
               bind_err (str_slot n) (\<lambda>sort_name.
               bind_err (case map_of d ''resource'' of None \<Rightarrow> Inr None | Some r \<Rightarrow> opt_str_slot r)
                 (\<lambda>sort_resource.
                    Inr (sort_name, sort_resource,
                         (case map_of d ''desc'' of Some (PBool b) \<Rightarrow> b | _ \<Rightarrow> False)))))
      | PStr s \<Rightarrow> Inr (s, None, False)
      | _ \<Rightarrow> Inl (DataException
                 ''Sorting field is malformed. Instance of string or dictionary is expected.''))"

definition get_sort_entry ::
  "(string \<times> descriptor) list \<Rightarrow> (string \<times> string) list \<Rightarrow> (string \<times> parsed_field) list
     \<Rightarrow> pyval \<Rightarrow> error + string" where
  "get_sort_entry qmd mp parsed se =
     bind_err (sort_ref se) (\<lambda>(sort_name0, sort_resource0, sort_desc).
       let sort_name = (case map_of parsed sort_name0 of
                          Some pf \<Rightarrow> if pf_name pf \<noteq> sort_name0 then pf_name pf else sort_name0
                        | None \<Rightarrow> sort_name0)
       in bind_err (case sort_resource0 of
                      Some r \<Rightarrow> Inr r
                    | None \<Rightarrow> infer_resource qmd sort_name ''Sorting field {field} does not exist.''
                                ''Sorting field {field} is ambiguous for resources {resources}.'')
            (\<lambda>sort_resource.
               case mapped_resource qmd mp sort_resource of
                 None \<Rightarrow> Inl (DataException
                            ''Resource {resource} for sorting field {field} does not exist.'')
               | Some db_resource \<Rightarrow>
                   Inr (qualified_name (d_alias db_resource) sort_name @ '' ''
                        @ (if sort_desc then ''desc'' else []))))"

fun get_sort_entries ::
  "(string \<times> descriptor) list \<Rightarrow> (string \<times> string) list \<Rightarrow> (string \<times> parsed_field) list
     \<Rightarrow> pyval list \<Rightarrow> error + string list" where
  "get_sort_entries qmd mp parsed [] = Inr []"
| "get_sort_entries qmd mp parsed (se # ses) =
     (case get_sort_entry qmd mp parsed se of
        Inl e \<Rightarrow> Inl e
      | Inr x \<Rightarrow> (case get_sort_entries qmd mp parsed ses of Inl e \<Rightarrow> Inl e | Inr xs \<Rightarrow> Inr (x # xs)))"

definition get_sort ::
  "(string \<times> descriptor) list \<Rightarrow> (string \<times> string) list \<Rightarrow> (string \<times> parsed_field) list
     \<Rightarrow> (string \<times> pyval) list \<Rightarrow> error + string list" where
  "get_sort qmd mp parsed q =
     (case map_of q ''sort'' of
        None \<Rightarrow> Inr []
      | Some (PList ses) \<Rightarrow> get_sort_entries qmd mp parsed ses
      | Some _ \<Rightarrow> Inl (DataException ''Parameter sort should be a list.''))"

subsection \<open>Filter arguments (lines 878--942)\<close>

text \<open>
  \<^verbatim>\<open>_is_field\<close> stores the inferred resource in the argument's dict; the second component
  of the result is the argument as the call leaves it. \<open>arg_resource\<close> is
  \<^verbatim>\<open>metadata[mapping[f['resource']]]\<close> and \<open>arg_name\<close> is \<^verbatim>\<open>f['name']\<close>.
\<close>

definition arg_resource ::
  "(string \<times> descriptor) list \<Rightarrow> (string \<times> string) list \<Rightarrow> pyval \<Rightarrow> error + descriptor" where
  "arg_resource md mp f =
     (case f of
        PDict d \<Rightarrow>
          (case map_of d ''resource'' of
             None \<Rightarrow> Inl KeyError
           | Some (PStr r) \<Rightarrow>
               (case mapped_resource md mp r of None \<Rightarrow> Inl KeyError | Some dsc \<Rightarrow> Inr dsc)
           | Some PNone \<Rightarrow> Inl KeyError
           | Some _ \<Rightarrow> Inl Unmodelled)
      | _ \<Rightarrow> Inl TypeError)"

definition arg_name :: "pyval \<Rightarrow> error + string" where
  "arg_name f =
     (case f of
        PDict d \<Rightarrow> (case map_of d ''name'' of None \<Rightarrow> Inl KeyError | Some v \<Rightarrow> str_slot v)
      | _ \<Rightarrow> Inl TypeError)"

definition field_belongs ::
  "(string \<times> descriptor) list \<Rightarrow> (string \<times> string) list \<Rightarrow> pyval \<Rightarrow> error + bool" where
  "field_belongs md mp f =
     bind_err (arg_name f) (\<lambda>nm.
     bind_err (arg_resource md mp f) (\<lambda>dsc.
       if map_of (d_fields dsc) nm = None
       then Inl (DataException ''Field {field} does not belong to resource {resource}.'')
       else Inr True))"

definition is_field ::
  "(string \<times> descriptor) list \<Rightarrow> (string \<times> string) list \<Rightarrow> pyval \<Rightarrow> (error + bool) \<times> pyval" where
  "is_field md mp f =
     (case f of
        PDict d \<Rightarrow>
          (case map_of d ''name'' of
             None \<Rightarrow> (Inr False, f)
           | Some nv \<Rightarrow>
               (case map_of d ''resource'' of
                  Some rv \<Rightarrow>
                    (case rv of
                       PStr r \<Rightarrow>
                         if mapped_resource md mp r = None
                         then (Inl (DataException ''Resource {resource} does not exist.''), f)
                         else (field_belongs md mp f, f)
                     | PNone \<Rightarrow> (Inl (DataException ''Resource {resource} does not exist.''), f)
                     | _ \<Rightarrow> (Inl Unmodelled, f))
                | None \<Rightarrow>
                    (case str_slot nv of
                       Inl e \<Rightarrow> (Inl e, f)
                     | Inr nm \<Rightarrow>
                         (case get_resources_by_field_name md nm of
                            [] \<Rightarrow> (Inl (DataException ''Field {field} does not exist.''), f)
                          | [r] \<Rightarrow>
                              let f1 = PDict (AList.update ''resource'' (PStr r) d)
                              in (field_belongs md mp f1, f1)
                          | _ \<Rightarrow> (Inl (DataException
                                      ''Field {field} is ambiguous for resources {resources}.''), f)))))
      | _ \<Rightarrow> (Inr False, f))"

definition get_field_type ::
  "(string \<times> descriptor) list \<Rightarrow> (string \<times> string) list \<Rightarrow> pyval
     \<Rightarrow> (error + string option) \<times> pyval" where
  "get_field_type md mp f =
     bind_st (is_field md mp f) (\<lambda>b f1.
       if \<not> b then (Inr None, f1)
       else (bind_err (arg_resource md mp f1) (\<lambda>dsc.
             bind_err (arg_name f1) (\<lambda>nm.
               case map_of (d_fields dsc) nm of
                 None \<Rightarrow> Inl KeyError
               | Some fd \<Rightarrow> Inr (Some (f_type fd)))), f1))"

definition is_field_geom ::
  "(string \<times> descriptor) list \<Rightarrow> (string \<times> string) list \<Rightarrow> pyval \<Rightarrow> (error + bool) \<times> pyval" where
  "is_field_geom md mp f =
     bind_st (is_field md mp f) (\<lambda>b f1.
       if \<not> b then (Inr False, f1)
       else (bind_err (arg_name f1) (\<lambda>nm.
             bind_err (arg_resource md mp f1) (\<lambda>dsc.
               Inr (Some nm = d_geometry_column dsc))), f1))"

definition get_field_srid ::
  "(string \<times> descriptor) list \<Rightarrow> (string \<times> string) list \<Rightarrow> pyval
     \<Rightarrow> (error + int option) \<times> pyval" where
  "get_field_srid md mp f =
     bind_st (is_field_geom md mp f) (\<lambda>b f1.
       if \<not> b then (Inr None, f1)
       else (bind_err (arg_resource md mp f1) (\<lambda>dsc. Inr (d_srid dsc)), f1))"

definition is_geom_value :: "pyval \<Rightarrow> bool" where
  "is_geom_value f = (case f of PGeom _ \<Rightarrow> True | _ \<Rightarrow> False)"

definition geom_wkt :: "pyval \<Rightarrow> pyval" where
  "geom_wkt f = (case f of PGeom g \<Rightarrow> PStr (wkt_dumps g) | _ \<Rightarrow> PNone)"

text \<open>
  \<^verbatim>\<open>'{table}."{field}"'.format(table = metadata[mapping[arg['resource']]]['alias'], field = arg['name'])\<close>
\<close>

definition aliased ::
  "(string \<times> descriptor) list \<Rightarrow> (string \<times> string) list \<Rightarrow> pyval \<Rightarrow> error + string" where
  "aliased md mp f =
     bind_err (arg_resource md mp f) (\<lambda>dsc.
     bind_err (arg_name f) (\<lambda>nm. Inr (qualified_name (d_alias dsc) nm)))"

text \<open>
  \<^verbatim>\<open>'ST_Transform({field}, {srid})'.format(field = ..., srid = CRS_DEFAULT_DATABASE)\<close>, applied
  when the SRID of the field is not \<^verbatim>\<open>CRS_DEFAULT_DATABASE\<close>.
\<close>

definition to_database_srid :: "int option \<Rightarrow> string \<Rightarrow> string" where
  "to_database_srid arg_srid aliased_arg =
     (if arg_srid \<noteq> Some CRS_DEFAULT_DATABASE
      then ''ST_Transform('' @ aliased_arg @ '', '' @ str_int CRS_DEFAULT_DATABASE @ '')''
      else aliased_arg)"

definition aliased_geom ::
  "(string \<times> descriptor) list \<Rightarrow> (string \<times> string) list \<Rightarrow> int option \<Rightarrow> pyval \<Rightarrow> error + string" where
  "aliased_geom md mp arg_srid f = bind_err (aliased md mp f) (\<lambda>a. Inr (to_database_srid arg_srid a))"

definition on_fst :: "('s \<Rightarrow> 'r \<times> 's) \<Rightarrow> 's \<times> 't \<Rightarrow> 'r \<times> ('s \<times> 't)" where
  "on_fst m = (\<lambda>(a, b). case m a of (r, a1) \<Rightarrow> (r, (a1, b)))"

definition on_snd :: "('t \<Rightarrow> 'r \<times> 't) \<Rightarrow> 's \<times> 't \<Rightarrow> 'r \<times> ('s \<times> 't)" where
  "on_snd m = (\<lambda>(a, b). case m b of (r, b1) \<Rightarrow> (r, (a, b1)))"

subsection \<open>Operators\<close>

definition OP_LIKE :: string where "OP_LIKE = ''LIKE''"
definition OP_AREA :: string where "OP_AREA = ''AREA''"
definition OP_DISTANCE :: string where "OP_DISTANCE = ''DISTANCE''"
definition OP_CONTAINS :: string where "OP_CONTAINS = ''CONTAINS''"
definition OP_INTERSECTS :: string where "OP_INTERSECTS = ''INTERSECTS''"

definition COMPARE_OPERATORS :: "string list" where
  "COMPARE_OPERATORS =
     [''EQUAL'', ''NOT_EQUAL'', ''GREATER'', ''GREATER_OR_EQUAL'', ''LESS'', ''LESS_OR_EQUAL'', ''LIKE'']"

definition COMPARE_EXPRESSIONS :: "string list" where
  "COMPARE_EXPRESSIONS = [''='', ''<>'', ''>'', ''>='', ''<'', ''<='', ''like'']"

definition SPATIAL_COMPARE_OPERATORS :: "string list" where
  "SPATIAL_COMPARE_OPERATORS =
     [''EQUAL'', ''GREATER'', ''GREATER_OR_EQUAL'', ''LESS'', ''LESS_OR_EQUAL'']"

definition SPATIAL_OPERATORS :: "string list" where
  "SPATIAL_OPERATORS = [''AREA'', ''DISTANCE'', ''CONTAINS'', ''INTERSECTS'']"

definition ALL_OPERATORS :: "string list" where
  "ALL_OPERATORS =
     [''EQUAL'', ''NOT_EQUAL'', ''GREATER'', ''GREATER_OR_EQUAL'', ''LESS'', ''LESS_OR_EQUAL'', ''LIKE'',
      ''AREA'', ''DISTANCE'', ''CONTAINS'', ''INTERSECTS'']"

fun index_of :: "'a list \<Rightarrow> 'a \<Rightarrow> nat" where
  "index_of [] x = 0"
| "index_of (y # ys) x = (if x = y then 0 else Suc (index_of ys x))"

text \<open>\<^verbatim>\<open>COMPARE_EXPRESSIONS[COMPARE_OPERATORS.index(op)]\<close>\<close>

definition compare_expression :: "string \<Rightarrow> string" where
  "compare_expression operator = COMPARE_EXPRESSIONS ! index_of COMPARE_OPERATORS operator"

text \<open>
  The comparison token of \<^verbatim>\<open>AREA\<close> and \<^verbatim>\<open>DISTANCE\<close>: a member of
  \<^verbatim>\<open>SPATIAL_COMPARE_OPERATORS\<close>, replaced by its SQL expression.
\<close>

definition spatial_compare_token :: "pyval \<Rightarrow> error + string" where
  "spatial_compare_token v =
     (case v of
        PStr s \<Rightarrow>
          if s \<in> set SPATIAL_COMPARE_OPERATORS then Inr (compare_expression s)
          else Inl (DataException ''Expression {expression} for operator {operator} is not valid.'')
      | _ \<Rightarrow> Inl (DataException ''Expression {expression} for operator {operator} is not valid.''))"

text \<open>
  \<^verbatim>\<open>isinstance(v, int)\<close> holds for a bool and for an integer that fits a machine word
  (a larger one is a \<^verbatim>\<open>long\<close>, on a 64-bit CPython 2); \<^verbatim>\<open>isinstance(v, float)\<close> for a
  float.
\<close>

definition convert_to :: "string option \<Rightarrow> pyval \<Rightarrow> string" where
  "convert_to arg_type v =
     (if arg_type = Some ''varchar'' \<and> is_number v then
        (case v of
           PInt i \<Rightarrow> if - (2 ^ 63) \<le> i \<and> i < 2 ^ 63 then ''::int'' else []
         | PBool _ \<Rightarrow> ''::int''
         | PFloat _ \<Rightarrow> ''::float''
         | _ \<Rightarrow> [])
      else [])"

subsection \<open>\<^verbatim>\<open>_create_filter_compare\<close> (lines 573--654)\<close>

definition field_with_literal ::
  "environment \<Rightarrow> (string \<times> descriptor) list \<Rightarrow> (string \<times> string) list \<Rightarrow> string \<Rightarrow> string
     \<Rightarrow> pyval \<Rightarrow> string option \<Rightarrow> pyval \<Rightarrow> error + (string \<times> pyval list)" where
  "field_with_literal env md mp operator expression fld fld_type lit =
     bind_err (aliased md mp fld) (\<lambda>aliased_arg.
       if operator = OP_LIKE then
         (if fld_type \<noteq> Some ''varchar''
          then Inl (DataException ''Operator {operator} only supports text fields.'')
          else Inr (''('' @ aliased_arg @ '' '' @ expression @ '' %s)'',
                    [PStr (''%'' @ py_str env lit @ ''%'')]))
       else Inr (''('' @ aliased_arg @ convert_to fld_type lit @ '' '' @ expression @ '' %s)'',
                 [lit]))"

definition compare_sql ::
  "environment \<Rightarrow> (string \<times> descriptor) list \<Rightarrow> (string \<times> string) list \<Rightarrow> string \<Rightarrow> string
     \<Rightarrow> bool \<Rightarrow> string option \<Rightarrow> bool \<Rightarrow> string option \<Rightarrow> bool \<Rightarrow> bool
     \<Rightarrow> pyval \<Rightarrow> pyval \<Rightarrow> error + (string \<times> pyval list)" where
  "compare_sql env md mp operator expression arg1_is_field arg1_type arg2_is_field arg2_type
       arg1_is_field_geom arg2_is_field_geom arg1 arg2 =
     (if arg1_is_field_geom \<or> arg2_is_field_geom
      then Inl (DataException ''Operator {operator} does not support geometry types.'')
      else if arg1_is_field \<and> arg2_is_field then
        (if operator = OP_LIKE
         then Inl (DataException ''Operator {operator} does not support two fields as arguments.'')
         else bind_err (aliased md mp arg1) (\<lambda>aliased_arg1.
              bind_err (aliased md mp arg2) (\<lambda>aliased_arg2.
                Inr (''('' @ aliased_arg1 @ '' '' @ expression @ '' '' @ aliased_arg2 @ '')'', []))))
      else if arg1_is_field \<and> \<not> arg2_is_field
      then field_with_literal env md mp operator expression arg1 arg1_type arg2
      else if \<not> arg1_is_field \<and> arg2_is_field
      then field_with_literal env md mp operator expression arg2 arg2_type arg1
      else
        (if operator = OP_LIKE
         then Inl (DataException ''Operator {operator} does not support two fields as literals.'')
         else Inr (''(%s '' @ expression @ '' %s)'', [arg1, arg2])))"

definition create_filter_compare ::
  "environment \<Rightarrow> (string \<times> descriptor) list \<Rightarrow> (string \<times> string) list \<Rightarrow> string \<Rightarrow> string
     \<Rightarrow> pyval \<times> pyval \<Rightarrow> (error + (string \<times> pyval list)) \<times> (pyval \<times> pyval)" where
  "create_filter_compare env md mp operator expression s0 =
     bind_st (on_fst (is_field md mp) s0) (\<lambda>arg1_is_field s1.
     bind_st (if arg1_is_field then on_fst (get_field_type md mp) s1 else (Inr None, s1))
       (\<lambda>arg1_type s2.
     bind_st (on_snd (is_field md mp) s2) (\<lambda>arg2_is_field s3.
     bind_st (if arg2_is_field then on_snd (get_field_type md mp) s3 else (Inr None, s3))
       (\<lambda>arg2_type s4.
     bind_st (on_fst (is_field_geom md mp) s4) (\<lambda>arg1_is_field_geom s5.
     bind_st (on_snd (is_field_geom md mp) s5) (\<lambda>arg2_is_field_geom s6.
       (compare_sql env md mp operator expression arg1_is_field arg1_type arg2_is_field arg2_type
          arg1_is_field_geom arg2_is_field_geom (fst s6) (snd s6), s6)))))))"

subsection \<open>\<^verbatim>\<open>_create_filter_spatial_area\<close> (lines 674--711)\<close>

definition area_sql ::
  "(string \<times> descriptor) list \<Rightarrow> (string \<times> string) list \<Rightarrow> string \<Rightarrow> bool \<Rightarrow> int option
     \<Rightarrow> pyval \<Rightarrow> pyval \<Rightarrow> error + (string \<times> pyval list)" where
  "area_sql md mp expression arg1_is_field_geom arg1_srid arg1 arg3 =
     (if \<not> arg1_is_field_geom \<and> \<not> is_geom_value arg1
      then Inl (DataException
        ''First argument for operator {operator} must be a geometry field or a GeoJSON encoded geometry.'')
      else if \<not> is_number arg3
      then Inl (DataException ''Third argument for operator {operator} must be number.'')
      else if arg1_is_field_geom then
        bind_err (aliased_geom md mp arg1_srid arg1) (\<lambda>aliased_arg1.
          Inr (''(ST_Area('' @ aliased_arg1 @ '') '' @ expression @ '' %s)'', [arg3]))
      else Inr (''(ST_Area(ST_GeomFromText(%s, 3857)) '' @ expression @ '' %s)'',
                [geom_wkt arg1, arg3]))"

definition create_filter_spatial_area ::
  "(string \<times> descriptor) list \<Rightarrow> (string \<times> string) list \<Rightarrow> pyval \<Rightarrow> pyval \<Rightarrow> pyval
     \<Rightarrow> (error + (string \<times> pyval list)) \<times> pyval" where
  "create_filter_spatial_area md mp arg1 arg2 arg3 =
     bind_st (spatial_compare_token arg2, arg1) (\<lambda>expression a0.
     bind_st (is_field md mp a0) (\<lambda>arg1_is_field a1.
     bind_st (is_field_geom md mp a1) (\<lambda>arg1_is_field_geom a2.
     bind_st (if arg1_is_field_geom then get_field_srid md mp a2
              else (Inr (Some CRS_DEFAULT_DATABASE), a2)) (\<lambda>arg1_srid a3.
       (area_sql md mp expression arg1_is_field_geom arg1_srid a3 arg3, a3)))))"

subsection \<open>\<^verbatim>\<open>_create_filter_spatial_distance\<close> and \<^verbatim>\<open>_create_filter_spatial_relation\<close>
  (lines 713--876)\<close>

text \<open>The text emitted for a literal geometry outside \<^verbatim>\<open>AREA\<close>.\<close>

definition literal_geom :: string where
  "literal_geom = ''ST_Transform(ST_GeomFromText(%s, 3857), '' @ str_int CRS_DEFAULT_DATABASE @ '')''"

definition geometry_checks :: "bool \<Rightarrow> bool \<Rightarrow> pyval \<Rightarrow> pyval \<Rightarrow> error + unit" where
  "geometry_checks arg1_is_field_geom arg2_is_field_geom arg1 arg2 =
     (if \<not> arg1_is_field_geom \<and> \<not> is_geom_value arg1
      then Inl (DataException
        ''First argument for operator {operator} must be a geometry field or a GeoJSON encoded geometry.'')
      else if \<not> arg2_is_field_geom \<and> \<not> is_geom_value arg2
      then Inl (DataException
        ''Second argument for operator {operator} must be a geometry field or a GeoJSON encoded geometry.'')
      else Inr ())"

definition distance_sql ::
  "(string \<times> descriptor) list \<Rightarrow> (string \<times> string) list \<Rightarrow> string \<Rightarrow> bool \<Rightarrow> int option
     \<Rightarrow> bool \<Rightarrow> int option \<Rightarrow> pyval \<Rightarrow> pyval \<Rightarrow> pyval \<Rightarrow> error + (string \<times> pyval list)" where
  "distance_sql md mp expression arg1_is_field_geom arg1_srid arg2_is_field_geom arg2_srid
       arg1 arg2 arg4 =
     bind_err (geometry_checks arg1_is_field_geom arg2_is_field_geom arg1 arg2) (\<lambda>_.
       if \<not> is_number arg4
       then Inl (DataException ''Third argument for operator {operator} must be number.'')
       else if arg1_is_field_geom \<and> arg2_is_field_geom then
         bind_err (aliased_geom md mp arg1_srid arg1) (\<lambda>aliased_arg1.
         bind_err (aliased_geom md mp arg2_srid arg2) (\<lambda>aliased_arg2.
           Inr (''(ST_Distance('' @ aliased_arg1 @ '','' @ aliased_arg2 @ '') '' @ expression
                @ '' %s)'', [arg4])))
       else if arg1_is_field_geom \<and> \<not> arg2_is_field_geom then
         bind_err (aliased_geom md mp arg1_srid arg1) (\<lambda>aliased_arg1.
           Inr (''(ST_Distance('' @ aliased_arg1 @ '', '' @ literal_geom @ '') '' @ expression
                @ '' %s)'', [geom_wkt arg2, arg4]))
       else if \<not> arg1_is_field_geom \<and> arg2_is_field_geom then
         bind_err (aliased_geom md mp arg2_srid arg2) (\<lambda>aliased_arg2.
           Inr (''(ST_Distance('' @ aliased_arg2 @ '', '' @ literal_geom @ '') '' @ expression
                @ '' %s)'', [geom_wkt arg1, arg4]))
       else
         Inr (''(ST_Distance('' @ literal_geom @ '', '' @ literal_geom @ '') '' @ expression
              @ '' %s)'', [geom_wkt arg1, geom_wkt arg2, arg4]))"

definition relation_sql ::
  "(string \<times> descriptor) list \<Rightarrow> (string \<times> string) list \<Rightarrow> string \<Rightarrow> bool \<Rightarrow> int option
     \<Rightarrow> bool \<Rightarrow> int option \<Rightarrow> pyval \<Rightarrow> pyval \<Rightarrow> error + (string \<times> pyval list)" where
  "relation_sql md mp spatial_operator arg1_is_field_geom arg1_srid arg2_is_field_geom arg2_srid
       arg1 arg2 =
     bind_err (geometry_checks arg1_is_field_geom arg2_is_field_geom arg1 arg2) (\<lambda>_.
       if arg1_is_field_geom \<and> arg2_is_field_geom then
         bind_err (aliased_geom md mp arg1_srid arg1) (\<lambda>aliased_arg1.
         bind_err (aliased_geom md mp arg2_srid arg2) (\<lambda>aliased_arg2.
           Inr (''('' @ spatial_operator @ ''('' @ aliased_arg1 @ '','' @ aliased_arg2
                @ '') = TRUE)'', [])))
       else if arg1_is_field_geom \<and> \<not> arg2_is_field_geom then
         bind_err (aliased_geom md mp arg1_srid arg1) (\<lambda>aliased_arg1.
           Inr (''('' @ spatial_operator @ ''('' @ aliased_arg1 @ '', '' @ literal_geom
                @ '') = TRUE)'', [geom_wkt arg2]))
       else if \<not> arg1_is_field_geom \<and> arg2_is_field_geom then
         bind_err (aliased_geom md mp arg2_srid arg2) (\<lambda>aliased_arg2.
           Inr (''('' @ spatial_operator @ ''('' @ literal_geom @ '', '' @ aliased_arg2
                @ '') = TRUE)'', [geom_wkt arg1]))
       else
         Inr (''('' @ spatial_operator @ ''('' @ literal_geom @ '', '' @ literal_geom
              @ '')  = TRUE)'', [geom_wkt arg1, geom_wkt arg2]))"

text \<open>
  The calls that both functions make on their two geometry arguments, in the order of
  the source, and what they return: whether each argument is a geometry field, and its
  SRID (\<^verbatim>\<open>CRS_DEFAULT_DATABASE\<close> when it is not a geometry field).
\<close>

definition geometry_sides ::
  "(string \<times> descriptor) list \<Rightarrow> (string \<times> string) list \<Rightarrow> pyval \<times> pyval
     \<Rightarrow> (error + (bool \<times> int option \<times> bool \<times> int option)) \<times> (pyval \<times> pyval)" where
  "geometry_sides md mp s0 =
     bind_st (on_fst (is_field md mp) s0) (\<lambda>arg1_is_field s1.
     bind_st (on_snd (is_field md mp) s1) (\<lambda>arg2_is_field s2.
     bind_st (on_fst (is_field_geom md mp) s2) (\<lambda>arg1_is_field_geom s3.
     bind_st (if arg1_is_field_geom then on_fst (get_field_srid md mp) s3
              else (Inr (Some CRS_DEFAULT_DATABASE), s3)) (\<lambda>arg1_srid s4.
     bind_st (on_snd (is_field_geom md mp) s4) (\<lambda>arg2_is_field_geom s5.
     bind_st (if arg2_is_field_geom then on_snd (get_field_srid md mp) s5
              else (Inr (Some CRS_DEFAULT_DATABASE), s5)) (\<lambda>arg2_srid s6.
       (Inr (arg1_is_field_geom, arg1_srid, arg2_is_field_geom, arg2_srid), s6)))))))"

definition create_filter_spatial_distance ::
  "(string \<times> descriptor) list \<Rightarrow> (string \<times> string) list \<Rightarrow> pyval \<times> pyval \<Rightarrow> pyval \<Rightarrow> pyval
     \<Rightarrow> (error + (string \<times> pyval list)) \<times> (pyval \<times> pyval)" where
  "create_filter_spatial_distance md mp s0 arg3 arg4 =
     bind_st (spatial_compare_token arg3, s0) (\<lambda>expression s1.
     bind_st (geometry_sides md mp s1)
       (\<lambda>(arg1_is_field_geom, arg1_srid, arg2_is_field_geom, arg2_srid) s2.
          (distance_sql md mp expression arg1_is_field_geom arg1_srid arg2_is_field_geom arg2_srid
             (fst s2) (snd s2) arg4, s2)))"

definition create_filter_spatial_relation ::
  "(string \<times> descriptor) list \<Rightarrow> (string \<times> string) list \<Rightarrow> string \<Rightarrow> pyval \<times> pyval
     \<Rightarrow> (error + (string \<times> pyval list)) \<times> (pyval \<times> pyval)" where
  "create_filter_spatial_relation md mp spatial_operator s0 =
     bind_st (geometry_sides md mp s0)
       (\<lambda>(arg1_is_field_geom, arg1_srid, arg2_is_field_geom, arg2_srid) s2.
          (relation_sql md mp spatial_operator arg1_is_field_geom arg1_srid arg2_is_field_geom
             arg2_srid (fst s2) (snd s2), s2))"

subsection \<open>\<^verbatim>\<open>_create_filter\<close> and \<^verbatim>\<open>_create_filter_spatial\<close> (lines 543--571, 656--672)\<close>

text \<open>
  The result is the tuple of the filter (its SQL text and its parameters) and the list
  \<^verbatim>\<open>f['arguments']\<close> as the call leaves it.
\<close>

definition create_filter_spatial ::
  "(string \<times> descriptor) list \<Rightarrow> (string \<times> string) list \<Rightarrow> string \<Rightarrow> pyval list
     \<Rightarrow> (error + (string \<times> pyval list)) \<times> pyval list" where
  "create_filter_spatial md mp operator args =
     (if operator = OP_AREA then
        (case args of
           [arg1, arg2, arg3] \<Rightarrow>
             (case create_filter_spatial_area md mp arg1 arg2 arg3 of
                (r, a1) \<Rightarrow> (r, [a1, arg2, arg3]))
         | _ \<Rightarrow> (Inl (DataException ''Operator {operator} expects three arguments.''), args))
      else if operator = OP_DISTANCE then
        (case args of
           [arg1, arg2, arg3, arg4] \<Rightarrow>
             (case create_filter_spatial_distance md mp (arg1, arg2) arg3 arg4 of
                (r, (a1, a2)) \<Rightarrow> (r, [a1, a2, arg3, arg4]))
         | _ \<Rightarrow> (Inl (DataException ''Operator {operator} expects four arguments.''), args))
      else if operator = OP_CONTAINS then
        (case args of
           [arg1, arg2] \<Rightarrow>
             (case create_filter_spatial_relation md mp ''ST_Contains'' (arg1, arg2) of
                (r, (a1, a2)) \<Rightarrow> (r, [a1, a2]))
         | _ \<Rightarrow> (Inl (DataException ''Operator {operator} expects two.''), args))
      else if operator = OP_INTERSECTS then
        (case args of
           [arg1, arg2] \<Rightarrow>
             (case create_filter_spatial_relation md mp ''ST_Intersects'' (arg1, arg2) of
                (r, (a1, a2)) \<Rightarrow> (r, [a1, a2]))
         | _ \<Rightarrow> (Inl (DataException ''Operator {operator} expects two arguments.''), args))
      else (Inl TypeError, args))"

definition create_filter_args ::
  "environment \<Rightarrow> (string \<times> descriptor) list \<Rightarrow> (string \<times> string) list \<Rightarrow> string \<Rightarrow> pyval list
     \<Rightarrow> (error + (string \<times> pyval list)) \<times> pyval list" where
  "create_filter_args env md mp operator args =
     (if operator \<in> set COMPARE_OPERATORS then
        (case args of
           [arg1, arg2] \<Rightarrow>
             (case create_filter_compare env md mp operator (compare_expression operator) (arg1, arg2) of
                (r, (a1, a2)) \<Rightarrow> (r, [a1, a2]))
         | _ \<Rightarrow> (Inl (DataException ''Operator {operator} expects two arguments.''), args))
      else create_filter_spatial md mp operator args)"

definition create_filter ::
  "environment \<Rightarrow> (string \<times> descriptor) list \<Rightarrow> (string \<times> string) list \<Rightarrow> pyval
     \<Rightarrow> (error + (string \<times> pyval list)) \<times> pyval" where
  "create_filter env md mp f =
     (case f of
        PDict d \<Rightarrow>
          (case map_of d ''operator'' of
             None \<Rightarrow> (Inl (DataException ''Parameter operator is missing from filter.''), f)
           | Some opv \<Rightarrow>
               (case opv of
                  PStr operator \<Rightarrow>
                    if operator \<notin> set ALL_OPERATORS
                    then (Inl (DataException ''Operator {operator} is not supported.''), f)
                    else
                      (case map_of d ''arguments'' of
                         None \<Rightarrow> (Inl (DataException ''Parameter arguments is missing from filter.''), f)
                       | Some (PList args) \<Rightarrow>
                           if length args = 0
                           then (Inl (DataException
                                   ''Parameter arguments must be a list with at least one member.''), f)
                           else
                             (case create_filter_args env md mp operator args of
                                (r, args1) \<Rightarrow> (r, PDict (AList.update ''arguments'' (PList args1) d)))
                       | Some _ \<Rightarrow>
                           (Inl (DataException
                              ''Parameter arguments must be a list with at least one member.''), f))
                | _ \<Rightarrow> (Inl (DataException ''Operator {operator} is not supported.''), f)))
      | _ \<Rightarrow> (Inl (DataException ''Filter must be a dictionary.''), f))"

fun create_filters ::
  "environment \<Rightarrow> (string \<times> descriptor) list \<Rightarrow> (string \<times> string) list \<Rightarrow> pyval list
     \<Rightarrow> (error + (string \<times> pyval list) list) \<times> pyval list" where
  "create_filters env md mp [] = (Inr [], [])"
| "create_filters env md mp (f # fs) =
     (case create_filter env md mp f of
        (Inl e, f1) \<Rightarrow> (Inl e, f1 # fs)
      | (Inr t, f1) \<Rightarrow>
          (case create_filters env md mp fs of
             (Inl e, fs1) \<Rightarrow> (Inl e, f1 # fs1)
           | (Inr ts, fs1) \<Rightarrow> (Inr (t # ts), f1 # fs1)))"

text \<open>Lines 382--388; the second component is the query as the filters leave it.\<close>

definition get_filters ::
  "environment \<Rightarrow> (string \<times> descriptor) list \<Rightarrow> (string \<times> string) list \<Rightarrow> (string \<times> pyval) list
     \<Rightarrow> (error + (string \<times> pyval list) list) \<times> (string \<times> pyval) list" where
  "get_filters env md mp q =
     (case map_of q ''filters'' of
        None \<Rightarrow> (Inr [], q)
      | Some (PList fs) \<Rightarrow>
          (case create_filters env md mp fs of
             (r, fs1) \<Rightarrow> (r, AList.update ''filters'' (PList fs1) q))
      | Some _ \<Rightarrow>
          (Inl (DataException ''Parameter filters should be a list with at least one item.''), q))"

subsection \<open>Building the statement (lines 449--495)\<close>

definition select_field :: "int \<Rightarrow> parsed_field \<Rightarrow> string" where
  "select_field target pf =
     (if is_geom pf \<and> pf_srid pf \<noteq> Some target
      then ''ST_Transform('' @ fullname pf @ '', '' @ str_int target @ '') as '' @ [CHR 0x22]
           @ pf_alias pf @ [CHR 0x22]
      else fullname pf @ '' as '' @ [CHR 0x22] @ pf_alias pf @ [CHR 0x22])"

definition from_table :: "string \<times> string \<times> string \<Rightarrow> string" where
  "from_table r = (case r of (nm, tbl, al) \<Rightarrow> [CHR 0x22] @ tbl @ [CHR 0x22] @ '' as '' @ al)"

definition build_sql ::
  "environment \<Rightarrow> int \<Rightarrow> (string \<times> parsed_field) list \<Rightarrow> (string \<times> string \<times> string) list
     \<Rightarrow> (string \<times> pyval list) list \<Rightarrow> string list \<Rightarrow> pyval \<Rightarrow> pyval \<Rightarrow> string \<times> pyval list" where
  "build_sql env target parsed_flds parsed_res filters sort_list limit offset =
     (let flds = map (\<lambda>(a, pf). select_field target pf) parsed_flds;
          tables = map from_table parsed_res;
          wheres = map fst filters;
          vals = concat (map snd filters);
          where_clause = (if length wheres > 0 then ''where '' @ join '' AND '' wheres else []);
          orderby_clause = (if length sort_list > 0 then ''order by '' @ join '', '' sort_list else [])
      in (''select distinct '' @ join '','' flds @ '' from '' @ join '','' tables @ '' ''
          @ where_clause @ '' '' @ orderby_clause @ '' limit '' @ py_str env limit
          @ '' offset '' @ py_str env offset @ '';'', vals))"

section \<open>Running the statement (lines 497--541)\<close>

definition command_timeout :: "int \<Rightarrow> rat \<Rightarrow> int" where
  "command_timeout tmo elapsed = max (py_int (of_int tmo - elapsed * 1000)) 1000"

text \<open>The text that a call sends to the server.\<close>

definition call_text :: "db_call \<Rightarrow> string" where
  "call_text c =
     (case c of
        SetStatementTimeout ct \<Rightarrow> ''SET LOCAL statement_timeout TO '' @ str_int ct @ '';''
      | Execute sql vals \<Rightarrow> sql)"

definition issued_timeouts :: "db_call list \<Rightarrow> int list" where
  "issued_timeouts calls =
     concat (map (\<lambda>c. case c of SetStatementTimeout ct \<Rightarrow> [ct] | Execute sql vals \<Rightarrow> []) calls)"

text \<open>
  Line 185 reads the timeout with a default; lines 508--511 read \<^verbatim>\<open>config['timeout']\<close>
  directly, and \<^verbatim>\<open>/\<close> on two integers is the floor division of Python 2.
\<close>

definition run_statement ::
  "config \<Rightarrow> environment \<Rightarrow> string \<Rightarrow> pyval list \<Rightarrow> execution_context
     \<Rightarrow> (error + (string \<times> pyval) list list) \<times> execution_context" where
  "run_statement cfg env sql vals ctx =
     (let tmo = (case timeout cfg of Some t \<Rightarrow> t | None \<Rightarrow> DEFAULT_SQL_TIMEOUT);
          ct = command_timeout tmo (elapsed_time ctx);
          ctx1 = ctx\<lparr>statements := statements ctx @ [SetStatementTimeout ct, Execute sql vals]\<rparr>
      in (case run_sql env sql vals of
            Inl e \<Rightarrow> (Inl e, ctx1)
          | Inr (records, seconds) \<Rightarrow>
              let ctx2 = ctx1\<lparr>elapsed_time := elapsed_time ctx1 + min seconds 1\<rparr>
              in (case timeout cfg of
                    None \<Rightarrow> (Inl KeyError, ctx2)
                  | Some t \<Rightarrow>
                      if elapsed_time ctx2 \<ge> of_int (t div 1000)
                      then (Inl (DataException
                        ''Execution timeout has expired. Current timeout value is {timeout} seconds.''),
                            ctx2)
                      else (Inr records, ctx2))))"

text \<open>\<^verbatim>\<open>shapely.wkb.loads(r[field].decode("hex"))\<close>\<close>

definition decode_geometry :: "environment \<Rightarrow> pyval \<Rightarrow> error + pyval" where
  "decode_geometry env v =
     (case v of
        PStr h \<Rightarrow> (case wkb_loads env h of Inl e \<Rightarrow> Inl e | Inr g \<Rightarrow> Inr (PGeom g))
      | _ \<Rightarrow> Inl AttributeError)"

fun feature_fields ::
  "environment \<Rightarrow> (string \<times> parsed_field) list \<Rightarrow> (string \<times> pyval) list
     \<Rightarrow> (string \<times> pyval) list \<times> pyval \<Rightarrow> error + ((string \<times> pyval) list \<times> pyval)" where
  "feature_fields env [] r acc = Inr acc"
| "feature_fields env ((fld, pf) # rest) r (props, g) =
     (case map_of r fld of
        None \<Rightarrow> Inl KeyError
      | Some v \<Rightarrow>
          if is_geom pf then
            (case decode_geometry env v of
               Inl e \<Rightarrow> Inl e
             | Inr g1 \<Rightarrow> feature_fields env rest r (props, g1))
          else feature_fields env rest r (AList.update fld v props, g))"

fun geojson_records ::
  "environment \<Rightarrow> (string \<times> parsed_field) list \<Rightarrow> int \<Rightarrow> (string \<times> pyval) list list
     \<Rightarrow> error + pyval list" where
  "geojson_records env parsed feature_id [] = Inr []"
| "geojson_records env parsed feature_id (r # rs) =
     (case feature_fields env parsed r ([], PNone) of
        Inl e \<Rightarrow> Inl e
      | Inr (props, g) \<Rightarrow>
          (case geojson_records env parsed (feature_id + 1) rs of
             Inl e \<Rightarrow> Inl e
           | Inr fs \<Rightarrow>
               Inr (PDict [(''id'', PInt (feature_id + 1)), (''properties'', PDict props),
                           (''geometry'', g), (''type'', PStr ''Feature'')] # fs)))"

fun record_fields ::
  "environment \<Rightarrow> (string \<times> parsed_field) list \<Rightarrow> (string \<times> pyval) list
     \<Rightarrow> (string \<times> pyval) list \<Rightarrow> error + (string \<times> pyval) list" where
  "record_fields env [] r acc = Inr acc"
| "record_fields env ((fld, pf) # rest) r acc =
     (case map_of r fld of
        None \<Rightarrow> Inl KeyError
      | Some v \<Rightarrow>
          if is_geom pf then
            (case decode_geometry env v of
               Inl e \<Rightarrow> Inl e
             | Inr g1 \<Rightarrow> record_fields env rest r (AList.update fld g1 acc))
          else record_fields env rest r (AList.update fld v acc))"

fun json_records ::
  "environment \<Rightarrow> (string \<times> parsed_field) list \<Rightarrow> (string \<times> pyval) list list
     \<Rightarrow> error + pyval list" where
  "json_records env parsed [] = Inr []"
| "json_records env parsed (r # rs) =
     (case record_fields env parsed r [] of
        Inl e \<Rightarrow> Inl e
      | Inr rec \<Rightarrow>
          (case json_records env parsed rs of
             Inl e \<Rightarrow> Inl e
           | Inr recs \<Rightarrow> Inr (PDict rec # recs)))"

definition materialize ::
  "environment \<Rightarrow> string \<Rightarrow> (string \<times> parsed_field) list \<Rightarrow> (string \<times> pyval) list list
     \<Rightarrow> error + pyval list" where
  "materialize env fmt parsed records =
     (if fmt = QUERY_FORMAT_GEOJSON then geojson_records env parsed 0 records
      else json_records env parsed records)"

section \<open>\<^verbatim>\<open>_execute_query\<close> as a whole\<close>

text \<open>
  The statement that a query compiles to, with what the later steps need. Compiling
  changes the context (the metadata cache and the entries of \<^verbatim>\<open>context['resources']\<close>)
  and the query, which is the object \<^verbatim>\<open>context['query']\<close>. A query of the queue is a
  dict.
\<close>

record compiled =
  sql_text :: string
  sql_values :: "pyval list"
  projection :: "(string \<times> parsed_field) list"
  sql_limit :: pyval
  sql_offset :: pyval

definition compile_query ::
  "environment \<Rightarrow> execution_context \<Rightarrow> (error + compiled) \<times> execution_context" where
  "compile_query env ctx0 =
     (case query ctx0 of
        PDict q \<Rightarrow>
          bind_st (get_limit q, ctx0) (\<lambda>limit ctx.
          bind_st (get_offset q, ctx) (\<lambda>offset ctx.
          bind_st (get_resources env q ctx) (\<lambda>st ctx.
          bind_st (expand_fields (query_metadata st) q, ctx) (\<lambda>(q1, fs) ctx.
          bind_st (get_fields (query_metadata st) (resource_mapping st) [] fs,
                   ctx\<lparr>query := PDict q1\<rparr>) (\<lambda>parsed ctx.
          bind_st (check_geom_columns (output_format ctx) parsed, ctx) (\<lambda>_ ctx.
          bind_st (case get_filters env (query_metadata st) (resource_mapping st) q1 of
                     (r, q2) \<Rightarrow> (bind_err r (\<lambda>filters. Inr (filters, q2)),
                                 ctx\<lparr>query := PDict q2\<rparr>)) (\<lambda>(filters, q2) ctx.
          bind_st (get_sort (query_metadata st) (resource_mapping st) parsed q2, ctx)
            (\<lambda>sort_list ctx.
            (case build_sql env (crs ctx) parsed (parsed_resources st) filters sort_list limit offset of
               (sql, vals) \<Rightarrow>
                 (Inr \<lparr>sql_text = sql, sql_values = vals, projection = parsed,
                       sql_limit = limit, sql_offset = offset\<rparr>, ctx))))))))))
      | _ \<Rightarrow> (Inl Unmodelled, ctx0))"

definition execute_query ::
  "config \<Rightarrow> environment \<Rightarrow> execution_context \<Rightarrow> (error + pyval list) \<times> execution_context" where
  "execute_query cfg env ctx0 =
     bind_st (compile_query env ctx0) (\<lambda>c ctx.
     bind_st (run_statement cfg env (sql_text c) (sql_values c) ctx) (\<lambda>records ctx.
       (materialize env (output_format ctx) (projection c) records, ctx)))"

section \<open>\<^verbatim>\<open>execute\<close> (lines 79--172)\<close>

definition CRS_SUPPORTED :: "string list" where
  "CRS_SUPPORTED = [''EPSG:900913'', ''EPSG:3857'', ''EPSG:4326'', ''EPSG:2100'', ''EPSG:4258'']"

definition FORMAT_SUPPORT_QUERY :: "string list" where
  "FORMAT_SUPPORT_QUERY = [QUERY_FORMAT_JSON, QUERY_FORMAT_GEOJSON]"

text \<open>\<^verbatim>\<open>int(query['crs'].split(':')[1])\<close> for a supported code.\<close>

definition crs_code :: "string \<Rightarrow> int" where
  "crs_code s =
     int (foldl (\<lambda>n c. 10 * n + (of_char c - 48)) 0 (tl (dropWhile (\<lambda>c. c \<noteq> CHR '':'') s)))"

text \<open>
  The message for an unsupported CRS is formatted with the keyword \<^verbatim>\<open>format\<close> where the
  template names \<^verbatim>\<open>crs\<close>, so that \<^verbatim>\<open>format\<close> raises \<^verbatim>\<open>KeyError\<close>.
\<close>

definition get_crs :: "(string \<times> pyval) list \<Rightarrow> error + int" where
  "get_crs doc =
     (case map_of doc ''crs'' of
        None \<Rightarrow> Inr CRS_DEFAULT_OUTPUT
      | Some (PStr s) \<Rightarrow> if s \<in> set CRS_SUPPORTED then Inr (crs_code s) else Inl KeyError
      | Some _ \<Rightarrow> Inl KeyError)"

definition get_format :: "(string \<times> pyval) list \<Rightarrow> error + string" where
  "get_format doc =
     (case map_of doc ''format'' of
        None \<Rightarrow> Inr QUERY_FORMAT_GEOJSON
      | Some (PStr s) \<Rightarrow>
          if s \<in> set FORMAT_SUPPORT_QUERY then Inr s
          else Inl (DataException ''Output format {format} is not supported for query results.'')
      | Some _ \<Rightarrow> Inl (DataException ''Output format {format} is not supported for query results.''))"

definition get_queue :: "(string \<times> pyval) list \<Rightarrow> error + pyval list" where
  "get_queue doc =
     (case map_of doc ''queue'' of
        None \<Rightarrow> Inl (DataException ''Parameter queue is required.'')
      | Some (PList qs) \<Rightarrow>
          if length qs = 0
          then Inl (DataException ''Parameter queue should be a list with at least one item.'')
          else Inr qs
      | Some _ \<Rightarrow> Inl (DataException ''Parameter queue should be a list with at least one item.''))"

text \<open>
  The loop over the queue. The second component is the queue as the loop leaves it (each
  query is the object that \<^verbatim>\<open>_execute_query\<close> worked on) and the context.
\<close>

fun execute_queue ::
  "config \<Rightarrow> environment \<Rightarrow> pyval list \<Rightarrow> execution_context
     \<Rightarrow> (error + pyval list) \<times> (pyval list \<times> execution_context)" where
  "execute_queue cfg env [] ctx = (Inr [], ([], ctx))"
| "execute_queue cfg env (q # qs) ctx =
     (case execute_query cfg env (ctx\<lparr>query := q\<rparr>) of
        (Inl e, ctx1) \<Rightarrow> (Inl e, (query ctx1 # qs, ctx1))
      | (Inr partial_result, ctx1) \<Rightarrow>
          (case execute_queue cfg env qs ctx1 of
             (Inl e, (qs1, ctx2)) \<Rightarrow> (Inl e, (query ctx1 # qs1, ctx2))
           | (Inr rs, (qs1, ctx2)) \<Rightarrow>
               (Inr ((if output_format ctx = QUERY_FORMAT_GEOJSON
                      then PDict [(''features'', PList partial_result),
                                  (''type'', PStr ''FeatureCollection'')]
                      else PList partial_result) # rs),
                (query ctx1 # qs1, ctx2))))"

text \<open>
  The \<^verbatim>\<open>except\<close> clauses of \<^verbatim>\<open>execute\<close>: a \<^verbatim>\<open>DataException\<close> is raised again, a database
  error and any other exception become a \<^verbatim>\<open>DataException\<close>. The flag of \<open>DBAPIError\<close>
  says that the code of the database error is \<^verbatim>\<open>query_canceled\<close>.
\<close>

definition as_data_exception :: "error \<Rightarrow> error" where
  "as_data_exception e =
     (case e of
        DataException m \<Rightarrow> DataException m
      | DBAPIError canceled \<Rightarrow>
          DataException (if canceled then ''Execution exceeded timeout.''
                         else ''Unhandled exception has occured.'')
      | Unmodelled \<Rightarrow> Unmodelled
      | _ \<Rightarrow> DataException ''Unhandled exception has occured.'')"

record response =
  data :: "pyval list"
  response_crs :: int
  response_metadata :: "(string \<times> descriptor) list"
  response_format :: string

text \<open>
  What a call of \<^verbatim>\<open>execute\<close> leaves: its result or the exception it raises, the query
  document of the caller, the dict that was passed as \<^verbatim>\<open>metadata\<close>, and the context of
  the batch (\<open>None\<close> when the call raised before it made one). Opening the engines and the
  connections succeeds once both configuration keys are there.
\<close>

record batch_end =
  outcome :: "error + response"
  document :: "(string \<times> pyval) list"
  metadata_dict :: "(string \<times> descriptor) list"
  batch_context :: "execution_context option"

definition failed :: "error \<Rightarrow> (string \<times> pyval) list \<Rightarrow> (string \<times> descriptor) list \<Rightarrow> batch_end" where
  "failed e doc md =
     \<lparr>outcome = Inl (as_data_exception e), document = doc, metadata_dict = md,
      batch_context = None\<rparr>"

definition execute ::
  "config \<Rightarrow> environment \<Rightarrow> (string \<times> pyval) list \<Rightarrow> (string \<times> descriptor) list \<Rightarrow> batch_end" where
  "execute cfg env doc md =
     (case get_crs doc of Inl e \<Rightarrow> failed e doc md | Inr target \<Rightarrow>
     (case get_format doc of Inl e \<Rightarrow> failed e doc md | Inr fmt \<Rightarrow>
     (case get_queue doc of Inl e \<Rightarrow> failed e doc md | Inr queue \<Rightarrow>
     (case sqlalchemy_catalog cfg of None \<Rightarrow> failed KeyError doc md | Some _ \<Rightarrow>
     (case sqlalchemy_vectorstore cfg of None \<Rightarrow> failed KeyError doc md | Some _ \<Rightarrow>
     (case getResources env of Inl e \<Rightarrow> failed e doc md | Inr rs \<Rightarrow>
        let ctx = \<lparr>query = PNone, output_format = fmt, crs = target, resources = rs,
                   metadata = md, elapsed_time = 0, statements = []\<rparr>
        in (case execute_queue cfg env queue ctx of
              (r, (queue1, ctx1)) \<Rightarrow>
                \<lparr>outcome =
                   (case r of
                      Inl e \<Rightarrow> Inl (as_data_exception e)
                    | Inr query_result \<Rightarrow>
                        Inr \<lparr>data = query_result, response_crs = target,
                             response_metadata = metadata ctx1, response_format = fmt\<rparr>),
                 document = AList.update ''queue'' (PList queue1) doc,
                 metadata_dict = metadata ctx1,
                 batch_context = Some ctx1\<rparr>)))))))"

section \<open>The default value of \<^verbatim>\<open>metadata\<close>\<close>

text \<open>
  \<^verbatim>\<open>def execute(self, config, query, metadata={})\<close>: Python evaluates the default value
  once, when the \<^verbatim>\<open>def\<close> statement runs, and every call that passes no \<^verbatim>\<open>metadata\<close> gets
  that one dict, with what earlier calls have stored in it. \<open>execute_default\<close> is such a
  call, given the content of the dict; \<open>execute_twice\<close> is two such calls, one after the
  other, in a process that has made none before.
\<close>

definition execute_default ::
  "config \<Rightarrow> environment \<Rightarrow> (string \<times> pyval) list \<Rightarrow> (string \<times> descriptor) list \<Rightarrow> batch_end" where
  "execute_default cfg env doc default_metadata = execute cfg env doc default_metadata"

definition execute_twice ::
  "config \<Rightarrow> environment \<Rightarrow> (string \<times> pyval) list \<Rightarrow> (string \<times> pyval) list
     \<Rightarrow> batch_end \<times> batch_end" where
  "execute_twice cfg env doc1 doc2 =
     (let first_end = execute_default cfg env doc1 [];
          second_end = execute_default cfg env doc2 (metadata_dict first_end)
      in (first_end, second_end))"

section \<open>Invariants and concrete inputs used below\<close>

text \<open>What compiling leaves alone.\<close>

definition same_run :: "execution_context \<Rightarrow> execution_context \<Rightarrow> bool" where
  "same_run a b \<longleftrightarrow> elapsed_time b = elapsed_time a \<and> statements b = statements a
     \<and> output_format b = output_format a \<and> crs b = crs a"

text \<open>The invariant of a batch for the timeouts sent to the server.\<close>

definition timeouts_ok :: "config \<Rightarrow> execution_context \<Rightarrow> bool" where
  "timeouts_ok cfg ctx \<longleftrightarrow> 0 \<le> elapsed_time ctx \<and>
     (\<forall>ct \<in> set (issued_timeouts (statements ctx)).
        1000 \<le> ct \<and> ct \<le> max 1000 (case timeout cfg of Some t \<Rightarrow> t | None \<Rightarrow> DEFAULT_SQL_TIMEOUT))"

text \<open>
  A catalog of two resources and a data database that answers every statement with the
  same two rows after half a second; a row has a value for every column of both tables.
\<close>

definition env_w :: environment where
  "env_w =
     \<lparr> catalog_rows =
         Inr [\<lparr>db_resource_id = ''roads'', row_package_title = Some ''Transport'',
               row_package_notes = None, row_resource_name = Some ''Roads'',
               wms_resource_id = None, row_geometry_type = Some ''LineString'',
               row_wms_server = None, row_wms_layer = None\<rparr>,
              \<lparr>db_resource_id = ''lakes'', row_package_title = Some ''Water'',
               row_package_notes = None, row_resource_name = Some ''Lakes'',
               wms_resource_id = None, row_geometry_type = Some ''Polygon'',
               row_wms_server = None, row_wms_layer = None\<rparr>],
       table_columns =
         (\<lambda>t. if t = ''roads''
              then Inr [\<lparr>col_name = ''geom'', col_type = ''geometry'', col_srid = Some 2100\<rparr>,
                        \<lparr>col_name = ''name'', col_type = ''varchar'', col_srid = None\<rparr>]
              else if t = ''lakes''
              then Inr [\<lparr>col_name = ''shape'', col_type = ''geometry'', col_srid = Some 4326\<rparr>,
                        \<lparr>col_name = ''depth'', col_type = ''float8'', col_srid = None\<rparr>]
              else Inr []),
       run_sql =
         (\<lambda>sql vals.
            Inr ([[(''geom'', PStr ''0101''), (''name'', PStr ''A1''),
                   (''shape'', PStr ''0201''), (''depth'', PInt 12)],
                  [(''geom'', PStr ''0102''), (''name'', PStr ''E75''),
                   (''shape'', PStr ''0202''), (''depth'', PInt 40)]], 1 / 2)),
       wkb_loads = (\<lambda>h. Inr (Geometry (''POINT '' @ h))),
       text_of = (\<lambda>v. ''?'') \<rparr>"

definition cfg_w :: config where
  "cfg_w = \<lparr>sqlalchemy_catalog = Some ''postgresql://catalog'',
            sqlalchemy_vectorstore = Some ''postgresql://data'', timeout = Some 30000\<rparr>"

definition roads_query :: pyval where
  "roads_query = PDict [(''resources'', PList [PStr ''roads''])]"

definition lakes_query :: pyval where
  "lakes_query = PDict [(''resources'', PList [PStr ''lakes''])]"

text \<open>Two entries of \<^verbatim>\<open>resources\<close> with the alias \<^verbatim>\<open>x\<close> for two tables.\<close>

definition dup_alias_query :: pyval where
  "dup_alias_query =
     PDict [(''resources'', PList [PDict [(''name'', PStr ''roads''), (''alias'', PStr ''x'')],
                                   PDict [(''name'', PStr ''lakes''), (''alias'', PStr ''x'')]]),
            (''fields'', PList [PDict [(''name'', PStr ''depth''), (''resource'', PStr ''x'')]])]"

text \<open>A sort entry that names its resource and, as field, a text that is no column.\<close>

definition sort_query :: pyval where
  \<open>sort_query =
     PDict [(''resources'', PList [PStr ''roads'']),
            (''sort'', PList [PDict [(''name'', PStr ''name" desc; DROP TABLE roads; --''),
                                     (''resource'', PStr ''roads'')]])]\<close>

definition area_filter :: pyval where
  "area_filter =
     PDict [(''operator'', PStr ''AREA''),
            (''arguments'', PList [PGeom (Geometry ''POLYGON ((0 0, 0 1, 1 1, 0 0))''),
                                   PStr ''GREATER'', PInt 100])]"

definition contains_filter :: pyval where
  "contains_filter =
     PDict [(''operator'', PStr ''CONTAINS''),
            (''arguments'', PList [PGeom (Geometry ''POLYGON ((0 0, 0 1, 1 1, 0 0))''),
                                   PGeom (Geometry ''POINT (0 0)'')])]"

text \<open>The context that \<^verbatim>\<open>execute\<close> makes for a batch on \<open>env_w\<close> with the format \<^verbatim>\<open>JSON\<close>.\<close>

definition ctx_w :: execution_context where
  "ctx_w =
     \<lparr>query = PNone, output_format = ''JSON'', crs = 3857,
      resources = (case getResources env_w of Inr rs \<Rightarrow> rs | Inl e \<Rightarrow> []),
      metadata = [], elapsed_time = 0, statements = []\<rparr>"

text \<open>The eight attributes of every stub of \<^verbatim>\<open>context['resources']\<close>, by key.\<close>

definition stub_view :: "(string \<times> resource) list \<Rightarrow> (string \<times> resource_stub) list" where
  "stub_view rs = map (\<lambda>(n, r). (n, stub r)) rs"


text \<open>A query with a limit and a negative offset, and the statement it compiles to.\<close>

definition limit_query :: pyval where
  "limit_query =
     PDict [(''resources'', PList [PStr ''roads'']), (''limit'', PInt 25), (''offset'', PInt (- 3))]"

definition limit_query_sql :: string where
  \<open>limit_query_sql =
     ''select distinct ST_Transform(t1."geom", 3857) as "geom",t1."name" as "name" from "roads" as t1   limit 25 offset 0;''\<close>

text \<open>
  An entry of \<^verbatim>\<open>context['resources']\<close> and an entry of the metadata cache that hold the
  same values under every key: the two are one dict.
\<close>

definition agrees :: "resource \<Rightarrow> descriptor \<Rightarrow> bool" where
  "agrees r d \<longleftrightarrow>
     stub r = d_stub d \<and> alias_key r = Some (d_alias d) \<and> srid_key r = Some (d_srid d) \<and>
     geometry_column_key r = Some (d_geometry_column d) \<and> fields_key r = Some (d_fields d)"

text \<open>
  Every resource that the batch has added to the metadata dict \<open>md0\<close> it was given is
  the entry of the same name in \<^verbatim>\<open>context['resources']\<close>.
\<close>

definition cache_shared :: "(string \<times> descriptor) list \<Rightarrow> execution_context \<Rightarrow> bool" where
  "cache_shared md0 ctx \<longleftrightarrow>
     (\<forall>n d. map_of (metadata ctx) n = Some d \<and> map_of md0 n = None \<longrightarrow>
        (\<exists>r. map_of (resources ctx) n = Some r \<and> agrees r d))"

subsection \<open>What compiling a query writes into the query document\<close>







section \<open>Theorems\<close>

subsection \<open>Unfolding the model\<close>

lemmas model_defs =
  QUERY_FORMAT_JSON_def QUERY_FORMAT_GEOJSON_def CRS_DEFAULT_DATABASE_def
  CRS_DEFAULT_OUTPUT_def MAX_RESULT_ROWS_def DEFAULT_SQL_TIMEOUT_def get_limit_def
  get_offset_def str_int_def py_int_def py_str_def wkt_dumps_def bind_err_def bind_st_def
  stub_of_row_def getResources_def startswith_underscore_def describeResource_def
  str_slot_def opt_str_slot_def resource_ref_def add_resource_def resolve_resource_def
  get_resources_def get_resources_by_field_name_def all_fields_def expand_fields_def
  field_ref_def infer_resource_def mapped_resource_def qualified_name_def get_field_def
  check_geom_columns_def sort_ref_def get_sort_entry_def get_sort_def arg_resource_def
  arg_name_def field_belongs_def is_field_def get_field_type_def is_field_geom_def
  get_field_srid_def is_geom_value_def geom_wkt_def aliased_def to_database_srid_def
  aliased_geom_def on_fst_def on_snd_def OP_LIKE_def OP_AREA_def OP_DISTANCE_def
  OP_CONTAINS_def OP_INTERSECTS_def COMPARE_OPERATORS_def COMPARE_EXPRESSIONS_def
  SPATIAL_COMPARE_OPERATORS_def SPATIAL_OPERATORS_def ALL_OPERATORS_def
  compare_expression_def spatial_compare_token_def convert_to_def field_with_literal_def
  compare_sql_def create_filter_compare_def area_sql_def create_filter_spatial_area_def
  literal_geom_def geometry_checks_def distance_sql_def relation_sql_def geometry_sides_def
  create_filter_spatial_distance_def create_filter_spatial_relation_def
  create_filter_spatial_def create_filter_args_def create_filter_def get_filters_def
  select_field_def from_table_def build_sql_def command_timeout_def call_text_def
  issued_timeouts_def run_statement_def decode_geometry_def materialize_def
  compile_query_def execute_query_def CRS_SUPPORTED_def FORMAT_SUPPORT_QUERY_def
  crs_code_def get_crs_def get_format_def get_queue_def as_data_exception_def failed_def
  execute_def execute_default_def execute_twice_def str_nat.simps Let_def

lemmas inputs =
  env_w_def cfg_w_def roads_query_def lakes_query_def dup_alias_query_def sort_query_def
  area_filter_def contains_filter_def ctx_w_def limit_query_def limit_query_sql_def

lemma bind_err_simps [simp]: "bind_err (Inl e) f = Inl e" "bind_err (Inr x) f = f x"
  by (simp_all add: bind_err_def)

lemma bind_st_simps [simp]: "bind_st (Inl e, s) f = (Inl e, s)" "bind_st (Inr x, s) f = f x s"
  by (simp_all add: bind_st_def)

lemma bind_err_Inr: "bind_err m f = Inr y \<longleftrightarrow> (\<exists>x. m = Inr x \<and> f x = Inr y)"
  by (cases m) auto

lemma bind_st_cases:
  "bind_st m f = (r, s') \<Longrightarrow>
     (\<exists>e. m = (Inl e, s') \<and> r = Inl e) \<or> (\<exists>x s. m = (Inr x, s) \<and> f x s = (r, s'))"
  by (cases m; cases "fst m") (auto simp: bind_st_def)

lemma bind_st_Inr:
  "bind_st m f = (Inr y, s') \<longleftrightarrow> (\<exists>x s. m = (Inr x, s) \<and> f x s = (Inr y, s'))"
  by (cases m; cases "fst m") (auto simp: bind_st_def)

subsection \<open>What compiling a query leaves alone\<close>

lemma same_run_refl [simp]: "same_run a a"
  by (simp add: same_run_def)

lemma same_run_trans: "same_run a b \<Longrightarrow> same_run b c \<Longrightarrow> same_run a c"
  by (simp add: same_run_def)

lemma resolve_resource_same_run:
  "resolve_resource env r st ctx = (res, ctx') \<Longrightarrow> same_run ctx ctx'"
  by (auto simp: resolve_resource_def same_run_def Let_def split: sum.splits option.splits prod.splits)

lemma resolve_resources_same_run:
  "resolve_resources env rs st ctx = (res, ctx') \<Longrightarrow> same_run ctx ctx'"
proof (induction rs arbitrary: st ctx)
  case Nil
  then show ?case by simp
next
  case (Cons r rs)
  obtain res1 ctx1 where step: "resolve_resource env r st ctx = (res1, ctx1)"
    by (cases "resolve_resource env r st ctx")
  have a: "same_run ctx ctx1" using step by (rule resolve_resource_same_run)
  show ?case
  proof (cases res1)
    case (Inl e)
    with Cons.prems step a show ?thesis by simp
  next
    case (Inr st1)
    with Cons.prems step have "resolve_resources env rs st1 ctx1 = (res, ctx')" by simp
    then have "same_run ctx1 ctx'" by (rule Cons.IH)
    with a show ?thesis by (rule same_run_trans)
  qed
qed

lemma get_resources_same_run:
  "get_resources env q ctx = (res, ctx') \<Longrightarrow> same_run ctx ctx'"
  by (auto simp: get_resources_def split: option.splits pyval.splits dest: resolve_resources_same_run)

lemma same_run_query [simp]: "same_run a (b\<lparr>query := q\<rparr>) = same_run a b"
  by (simp add: same_run_def)

lemma compile_query_same_run:
  "compile_query env ctx0 = (res, ctx1) \<Longrightarrow> same_run ctx0 ctx1"
  by (auto simp: compile_query_def bind_st_def bind_err_def
           split: pyval.splits sum.splits prod.splits dest!: get_resources_same_run)


subsection \<open>The timeouts sent to the server\<close>

lemma py_int_le: "x \<le> of_int n \<Longrightarrow> 0 \<le> n \<Longrightarrow> py_int x \<le> n"
  by (auto simp: py_int_def floor_le_iff ceiling_le_iff intro: order_trans)

lemma command_timeout_bounds:
  "0 \<le> e \<Longrightarrow> 1000 \<le> command_timeout t e \<and> command_timeout t e \<le> max 1000 t"
proof -
  assume e: "0 \<le> e"
  have "py_int (of_int t - e * 1000) \<le> max 1000 t"
  proof (rule py_int_le)
    have "of_int t - e * 1000 \<le> (of_int t :: rat)" using e by simp
    also have "\<dots> \<le> of_int (max 1000 t)" by simp
    finally show "of_int t - e * 1000 \<le> (of_int (max 1000 t) :: rat)" .
  qed simp
  then show ?thesis by (simp add: command_timeout_def)
qed

lemma issued_timeouts_append [simp]:
  "issued_timeouts (xs @ ys) = issued_timeouts xs @ issued_timeouts ys"
  by (simp add: issued_timeouts_def)

lemma issued_timeouts_pair [simp]:
  "issued_timeouts [SetStatementTimeout ct, Execute sql vals] = [ct]"
  by (simp add: issued_timeouts_def)

lemma same_run_timeouts_ok: "same_run a b \<Longrightarrow> timeouts_ok cfg a \<Longrightarrow> timeouts_ok cfg b"
  by (simp add: same_run_def timeouts_ok_def)

lemma run_statement_timeouts_ok:
  assumes "run_statement cfg env sql vals ctx = (res, ctx')"
      and "timeouts_ok cfg ctx"
      and "\<forall>sql vals rows secs. run_sql env sql vals = Inr (rows, secs) \<longrightarrow> 0 \<le> secs"
  shows "timeouts_ok cfg ctx'"
  using assms command_timeout_bounds [of "elapsed_time ctx"
      "case timeout cfg of Some t \<Rightarrow> t | None \<Rightarrow> DEFAULT_SQL_TIMEOUT"]
  by (auto simp: run_statement_def timeouts_ok_def Let_def
           split: sum.splits prod.splits option.splits if_splits)

lemma execute_query_timeouts_ok:
  assumes "execute_query cfg env ctx = (res, ctx')"
      and "timeouts_ok cfg ctx"
      and "\<forall>sql vals rows secs. run_sql env sql vals = Inr (rows, secs) \<longrightarrow> 0 \<le> secs"
  shows "timeouts_ok cfg ctx'"
proof -
  from assms(1) consider
      (a) e where "compile_query env ctx = (Inl e, ctx')"
    | (b) c ctx1 where "compile_query env ctx = (Inr c, ctx1)"
        "bind_st (run_statement cfg env (sql_text c) (sql_values c) ctx1)
           (\<lambda>records ctx. (materialize env (output_format ctx) (projection c) records, ctx)) = (res, ctx')"
    unfolding execute_query_def by (auto dest!: bind_st_cases)
  then show ?thesis
  proof cases
    case a
    then show ?thesis using assms(2) compile_query_same_run same_run_timeouts_ok by blast
  next
    case b
    have ok1: "timeouts_ok cfg ctx1"
      using b(1) assms(2) compile_query_same_run same_run_timeouts_ok by blast
    from b(2) obtain r where "run_statement cfg env (sql_text c) (sql_values c) ctx1 = (r, ctx')"
      by (auto dest!: bind_st_cases)
    then show ?thesis using ok1 assms(3) by (rule run_statement_timeouts_ok)
  qed
qed

lemma timeouts_ok_query [simp]: "timeouts_ok cfg (ctx\<lparr>query := q\<rparr>) = timeouts_ok cfg ctx"
  by (simp add: timeouts_ok_def)

lemma execute_queue_timeouts_ok:
  assumes "execute_queue cfg env qs ctx = (res, (qs', ctx'))"
      and "timeouts_ok cfg ctx"
      and "\<forall>sql vals rows secs. run_sql env sql vals = Inr (rows, secs) \<longrightarrow> 0 \<le> secs"
  shows "timeouts_ok cfg ctx'"
  using assms(1,2)
proof (induction qs arbitrary: ctx res qs' ctx')
  case Nil
  then show ?case by simp
next
  case (Cons q qs)
  obtain r1 ctx1 where step: "execute_query cfg env (ctx\<lparr>query := q\<rparr>) = (r1, ctx1)"
    by (cases "execute_query cfg env (ctx\<lparr>query := q\<rparr>)")
  have ok1: "timeouts_ok cfg ctx1"
    using step Cons.prems(2) assms(3) execute_query_timeouts_ok [of cfg env "ctx\<lparr>query := q\<rparr>"]
    by simp
  show ?case
  proof (cases r1)
    case (Inl e)
    with Cons.prems(1) step ok1 show ?thesis by simp
  next
    case (Inr pr)
    obtain r2 qs2 ctx2 where rest: "execute_queue cfg env qs ctx1 = (r2, (qs2, ctx2))"
      by (cases "execute_queue cfg env qs ctx1") auto
    then have "timeouts_ok cfg ctx2" using ok1 by (rule Cons.IH)
    moreover have "ctx' = ctx2"
      using Cons.prems(1) step Inr rest by (auto split: sum.splits)
    ultimately show ?thesis by simp
  qed
qed

lemma execute_context:
  "batch_context (execute cfg env doc md) = Some ctx \<Longrightarrow>
     \<exists>target fmt queue rs r queue1.
       get_crs doc = Inr target \<and> get_format doc = Inr fmt \<and> get_queue doc = Inr queue \<and>
       getResources env = Inr rs \<and>
       execute_queue cfg env queue
         \<lparr>query = PNone, output_format = fmt, crs = target, resources = rs,
          metadata = md, elapsed_time = 0, statements = []\<rparr> = (r, (queue1, ctx))"
  by (auto simp: execute_def failed_def Let_def split: sum.splits option.splits prod.splits)

text \<open>
  C5, as amended: for every query executed within a batch, the \<^verbatim>\<open>statement_timeout\<close> sent
  to the data connection before the query is at least 1000 and at most the larger of 1000
  and the configured total timeout in milliseconds (30000 when the key is absent),
  provided the clock does not run backwards.
\<close>

theorem statement_timeout_bounds:
  assumes "batch_context (execute cfg env doc md) = Some ctx"
      and "\<forall>sql vals rows secs. run_sql env sql vals = Inr (rows, secs) \<longrightarrow> 0 \<le> secs"
  shows "\<forall>ct \<in> set (issued_timeouts (statements ctx)).
           1000 \<le> ct \<and> ct \<le> max 1000 (case timeout cfg of Some t \<Rightarrow> t | None \<Rightarrow> DEFAULT_SQL_TIMEOUT)"
proof -
  from execute_context [OF assms(1)] obtain c0 r queue queue1 where
    run: "execute_queue cfg env queue c0 = (r, (queue1, ctx))"
    and c0: "elapsed_time c0 = 0" "statements c0 = []"
    by fastforce
  have "timeouts_ok cfg c0" using c0 by (simp add: timeouts_ok_def issued_timeouts_def)
  with run have "timeouts_ok cfg ctx" using assms(2) by (rule execute_queue_timeouts_ok)
  then show ?thesis by (simp add: timeouts_ok_def)
qed


theorem statement_timeout_bounds_witness:
  "map_option (\<lambda>ctx. issued_timeouts (statements ctx))
     (batch_context (execute cfg_w env_w [(''queue'', PList [roads_query, roads_query])] []))
   = Some [30000, 29500]"
proof -
  obtain ctx where c: "batch_context (execute cfg_w env_w [(''queue'', PList [roads_query, roads_query])] []) = Some ctx"
    and s: "issued_timeouts (statements ctx) = [30000, 29500]"
    by (simp add: model_defs env_w_def cfg_w_def roads_query_def)
  have h: "\<forall>sql vals rows secs. run_sql env_w sql vals = Inr (rows, secs) \<longrightarrow> 0 \<le> secs"
    by (simp add: env_w_def)
  from statement_timeout_bounds [OF c h] c s show ?thesis by simp
qed

text \<open>
  C5, as stated, fails: with a total timeout of 500 ms the batch sends a
  \<^verbatim>\<open>statement_timeout\<close> of 1000.
\<close>

theorem statement_timeout_above_total_timeout:
  "map_option (\<lambda>ctx. issued_timeouts (statements ctx))
     (batch_context (execute (cfg_w\<lparr>timeout := Some 500\<rparr>) env_w [(''queue'', PList [roads_query])] []))
   = Some [1000] \<and> \<not> (1000 \<le> (500::int))"
  by (simp add: model_defs env_w_def cfg_w_def roads_query_def)

subsection \<open>A configuration without the key \<^verbatim>\<open>timeout\<close>\<close>

text \<open>
  C2 says that a batch runs with a total timeout of 30000 ms when the key \<^verbatim>\<open>timeout\<close> is
  absent. Line 185 does take the default, and the statement is sent with a timeout of
  30000; line 508 then reads \<^verbatim>\<open>config['timeout']\<close>, and the batch ends with
  \<^verbatim>\<open>Unhandled exception has occured.\<close>
\<close>

theorem execute_without_timeout_key:
  "outcome (execute (cfg_w\<lparr>timeout := None\<rparr>) env_w [(''queue'', PList [roads_query])] [])
     = Inl (DataException ''Unhandled exception has occured.'') \<and>
   map_option (\<lambda>ctx. issued_timeouts (statements ctx))
     (batch_context (execute (cfg_w\<lparr>timeout := None\<rparr>) env_w [(''queue'', PList [roads_query])] []))
     = Some [30000]"
  by (simp add: model_defs inputs)

text \<open>No batch returns a result under such a configuration.\<close>

lemma run_statement_needs_timeout:
  "run_statement cfg env sql vals ctx = (Inr r, ctx') \<Longrightarrow> timeout cfg \<noteq> None"
  by (auto simp: run_statement_def Let_def split: sum.splits prod.splits option.splits)

lemma execute_query_needs_timeout:
  "execute_query cfg env ctx = (Inr r, ctx') \<Longrightarrow> timeout cfg \<noteq> None"
  unfolding execute_query_def bind_st_Inr
  using run_statement_needs_timeout by blast

lemma execute_queue_needs_timeout:
  "execute_queue cfg env (q # qs) ctx = (Inr r, s) \<Longrightarrow> timeout cfg \<noteq> None"
  using execute_query_needs_timeout [of cfg env "ctx\<lparr>query := q\<rparr>"]
  by (auto split: sum.splits prod.splits)

lemma get_queue_nonempty: "get_queue doc = Inr qs \<Longrightarrow> qs \<noteq> []"
  by (auto simp: get_queue_def split: option.splits pyval.splits if_splits)

lemma execute_result:
  "outcome (execute cfg env doc md) = Inr r \<Longrightarrow>
     \<exists>queue ctx0 qr s. get_queue doc = Inr queue \<and> execute_queue cfg env queue ctx0 = (Inr qr, s)"
  by (auto simp: execute_def failed_def Let_def split: sum.splits option.splits prod.splits)

lemma no_result_without_timeout_key:
  assumes "timeout cfg = None"
  shows "isl (outcome (execute cfg env doc md))"
proof (cases "outcome (execute cfg env doc md)")
  case (Inl e)
  then show ?thesis by simp
next
  case (Inr r)
  then obtain queue ctx0 qr s where q: "get_queue doc = Inr queue"
    and run: "execute_queue cfg env queue ctx0 = (Inr qr, s)"
    using execute_result by blast
  from q obtain q0 qs where "queue = q0 # qs"
    using get_queue_nonempty by (cases queue) auto
  with run have "timeout cfg \<noteq> None" using execute_queue_needs_timeout by blast
  with assms show ?thesis by simp
qed

subsection \<open>Two calls without \<^verbatim>\<open>metadata\<close>\<close>

text \<open>
  C3 says that a second call of \<^verbatim>\<open>execute\<close> without \<^verbatim>\<open>metadata\<close> starts from an empty
  cache. After a batch on \<^verbatim>\<open>roads\<close>, a batch on \<^verbatim>\<open>lakes\<close> returns the metadata of both
  resources and numbers \<^verbatim>\<open>lakes\<close> as \<^verbatim>\<open>t2\<close>; alone it returns \<^verbatim>\<open>lakes\<close> as \<^verbatim>\<open>t1\<close>.
\<close>

theorem default_metadata_is_shared:
  "map_sum id (\<lambda>r. map (\<lambda>(n, d). (n, d_alias d)) (response_metadata r))
     (outcome (snd (execute_twice cfg_w env_w [(''queue'', PList [roads_query])]
                      [(''queue'', PList [lakes_query])])))
     = Inr [(''roads'', ''t1''), (''lakes'', ''t2'')] \<and>
   map_sum id (\<lambda>r. map (\<lambda>(n, d). (n, d_alias d)) (response_metadata r))
     (outcome (execute_default cfg_w env_w [(''queue'', PList [lakes_query])] []))
     = Inr [(''lakes'', ''t1'')]"
  by (simp add: model_defs inputs)

subsection \<open>Names in the order-by clause\<close>

text \<open>
  C1 says that every field name of the statement, those of the order-by clause included,
  comes from the metadata. A sort entry that names its resource is not looked up in the
  fields of the resource: its \<^verbatim>\<open>name\<close> goes into the statement as it is.
\<close>

theorem order_by_takes_raw_name:
  \<open>map_option (\<lambda>ctx. map call_text (statements ctx))
     (batch_context (execute cfg_w env_w [(''queue'', PList [sort_query])] []))
   = Some [''SET LOCAL statement_timeout TO 30000;'',
           ''select distinct ST_Transform(t1."geom", 3857) as "geom",t1."name" as "name" from "roads" as t1  order by t1."name" desc; DROP TABLE roads; --"  limit 10000 offset 0;'']\<close>
  by (simp add: model_defs inputs)

subsection \<open>The area of a literal geometry\<close>

text \<open>
  C4 says that every geometry side whose SRID is not 2100 is wrapped in
  \<^verbatim>\<open>ST_Transform(..., 2100)\<close>, a literal geometry (SRID 3857) included. \<^verbatim>\<open>AREA\<close> emits a
  literal without the wrapper; \<^verbatim>\<open>CONTAINS\<close> (like \<^verbatim>\<open>DISTANCE\<close> and \<^verbatim>\<open>INTERSECTS\<close>)
  wraps it.
\<close>

theorem area_of_literal_not_transformed:
  "fst (create_filter env_w [] [] area_filter)
     = Inr (''(ST_Area(ST_GeomFromText(%s, 3857)) > %s)'',
            [PStr ''POLYGON ((0 0, 0 1, 1 1, 0 0))'', PInt 100]) \<and>
   fst (create_filter env_w [] [] contains_filter)
     = Inr (''(ST_Contains(ST_Transform(ST_GeomFromText(%s, 3857), 2100), ST_Transform(ST_GeomFromText(%s, 3857), 2100))  = TRUE)'',
            [PStr ''POLYGON ((0 0, 0 1, 1 1, 0 0))'', PStr ''POINT (0 0)''])"
  by (simp add: model_defs inputs)

subsection \<open>Two entries of \<^verbatim>\<open>resources\<close> with one alias\<close>

lemma map_of_update_None:
  "map_of al k \<noteq> None \<Longrightarrow> (map_of (AList.update k v al) k' = None) = (map_of al k' = None)"
  by (simp add: update_conv')

lemma resolve_resource_succeeds:
  assumes "resource_ref r = Inr (n, a)" "map_of (resources ctx) n \<noteq> None"
      and "\<not> isl (describeResource env n)"
  shows "\<exists>st1 ctx1. resolve_resource env r st ctx = (Inr st1, ctx1) \<and>
           resource_mapping st1 = AList.update a n (AList.update n n (resource_mapping st)) \<and>
           (\<forall>k. (map_of (resources ctx1) k = None) = (map_of (resources ctx) k = None))"
proof -
  from assms(3) obtain d where d: "describeResource env n = Inr d"
    by (cases "describeResource env n") auto
  from assms(2) obtain db where db: "map_of (resources ctx) n = Some db" by auto
  show ?thesis
    using assms(1) d db
    by (cases "map_of (metadata ctx) n")
       (auto simp: resolve_resource_def add_resource_def Let_def update_conv')
qed

text \<open>
  C6, as amended: resource resolution does not detect an alias that two entries give to
  different resources. When every entry of \<^verbatim>\<open>resources\<close> is a name or a dict with a name,
  every name is in the catalog and every table can be described, resolution succeeds, and
  the resource mapping sends each name and alias to the resource of the last entry that
  wrote it: a later entry overwrites an earlier one.
\<close>

theorem duplicate_alias_last_wins:
  assumes "\<forall>r \<in> set rs. \<exists>n a. resource_ref r = Inr (n, a) \<and> map_of (resources ctx) n \<noteq> None
              \<and> \<not> isl (describeResource env n)"
  shows "\<exists>st' ctx'. resolve_resources env rs st ctx = (Inr st', ctx') \<and>
           map_of (resource_mapping st') =
             map_of (rev (concat (map (\<lambda>r. case resource_ref r of
                                              Inr (n, a) \<Rightarrow> [(n, n), (a, n)] | Inl e \<Rightarrow> []) rs))
                     @ resource_mapping st)"
  using assms
proof (induction rs arbitrary: st ctx)
  case Nil
  then show ?case by simp
next
  case (Cons r rs)
  from Cons.prems obtain n a where r: "resource_ref r = Inr (n, a)"
    and n: "map_of (resources ctx) n \<noteq> None" and d: "\<not> isl (describeResource env n)"
    by auto
  from resolve_resource_succeeds [OF r n d, of st] obtain st1 ctx1 where
    step: "resolve_resource env r st ctx = (Inr st1, ctx1)"
    and mp: "resource_mapping st1 = AList.update a n (AList.update n n (resource_mapping st))"
    and keys: "\<forall>k. (map_of (resources ctx1) k = None) = (map_of (resources ctx) k = None)"
    by blast
  have "\<forall>r \<in> set rs. \<exists>n a. resource_ref r = Inr (n, a) \<and> map_of (resources ctx1) n \<noteq> None
              \<and> \<not> isl (describeResource env n)"
    using Cons.prems keys by auto
  from Cons.IH [OF this, of st1] obtain st' ctx' where
    rest: "resolve_resources env rs st1 ctx1 = (Inr st', ctx')"
    and m: "map_of (resource_mapping st') =
             map_of (rev (concat (map (\<lambda>r. case resource_ref r of
                                              Inr (n, a) \<Rightarrow> [(n, n), (a, n)] | Inl e \<Rightarrow> []) rs))
                     @ resource_mapping st1)"
    by blast
  have "map_of (resource_mapping st') =
          map_of (rev (concat (map (\<lambda>r. case resource_ref r of
                                              Inr (n, a) \<Rightarrow> [(n, n), (a, n)] | Inl e \<Rightarrow> []) (r # rs)))
                     @ resource_mapping st)"
    unfolding m mp using r by (simp add: update_conv' map_add_def fun_eq_iff split: option.splits)
  with step rest show ?case by simp
qed

theorem duplicate_alias_last_wins_witness:
  "\<exists>st' ctx'.
     resolve_resources env_w
       [PDict [(''name'', PStr ''roads''), (''alias'', PStr ''x'')],
        PDict [(''name'', PStr ''lakes''), (''alias'', PStr ''x'')]]
       \<lparr>parsed_resources = [], query_metadata = [], resource_mapping = []\<rparr> ctx_w = (Inr st', ctx') \<and>
     map_of (resource_mapping st') ''x'' = Some ''lakes'' \<and>
     map_of (resource_mapping st') ''roads'' = Some ''roads''"
proof -
  have h: "\<forall>r \<in> set [PDict [(''name'', PStr ''roads''), (''alias'', PStr ''x'')],
                      PDict [(''name'', PStr ''lakes''), (''alias'', PStr ''x'')]].
             \<exists>n a. resource_ref r = Inr (n, a) \<and> map_of (resources ctx_w) n \<noteq> None
               \<and> \<not> isl (describeResource env_w n)"
    by (simp add: model_defs inputs)
  from duplicate_alias_last_wins [OF h, of "\<lparr>parsed_resources = [], query_metadata = [], resource_mapping = []\<rparr>"]
  show ?thesis by (auto simp: model_defs)
qed

text \<open>
  C6, as stated, fails: a query with the alias \<^verbatim>\<open>x\<close> for \<^verbatim>\<open>roads\<close> and for \<^verbatim>\<open>lakes\<close> is
  executed, and its field \<^verbatim>\<open>x.depth\<close> is read from \<^verbatim>\<open>lakes\<close>.
\<close>

theorem duplicate_alias_accepted:
  "map_sum id data
     (outcome (execute cfg_w env_w [(''format'', PStr ''JSON''), (''queue'', PList [dup_alias_query])] []))
   = Inr [PList [PDict [(''depth'', PInt 12)], PDict [(''depth'', PInt 40)]]]"
  by (simp add: model_defs inputs)

subsection \<open>The stubs of the catalog\<close>

lemma stub_view_update:
  "map_of rs k = Some r \<Longrightarrow> stub r' = stub r \<Longrightarrow> stub_view (AList.update k r' rs) = stub_view rs"
  by (induction rs) (auto simp: stub_view_def)

lemma resolve_resource_stubs:
  "resolve_resource env r st ctx = (res, ctx') \<Longrightarrow> stub_view (resources ctx') = stub_view (resources ctx)"
  by (auto simp: resolve_resource_def Let_def stub_view_update update_conv'
           split: sum.splits option.splits prod.splits)

lemma resolve_resources_stubs:
  "resolve_resources env rs st ctx = (res, ctx') \<Longrightarrow> stub_view (resources ctx') = stub_view (resources ctx)"
proof (induction rs arbitrary: st ctx)
  case Nil
  then show ?case by simp
next
  case (Cons r rs)
  obtain res1 ctx1 where step: "resolve_resource env r st ctx = (res1, ctx1)"
    by (cases "resolve_resource env r st ctx")
  have a: "stub_view (resources ctx1) = stub_view (resources ctx)"
    using step by (rule resolve_resource_stubs)
  show ?case
  proof (cases res1)
    case (Inl e)
    with Cons.prems step a show ?thesis by simp
  next
    case (Inr st1)
    with Cons.prems step have "resolve_resources env rs st1 ctx1 = (res, ctx')" by simp
    then have "stub_view (resources ctx') = stub_view (resources ctx1)" by (rule Cons.IH)
    with a show ?thesis by simp
  qed
qed

lemma get_resources_stubs:
  "get_resources env q ctx = (res, ctx') \<Longrightarrow> stub_view (resources ctx') = stub_view (resources ctx)"
  by (auto simp: get_resources_def split: option.splits pyval.splits dest: resolve_resources_stubs)

lemma compile_query_stubs:
  "compile_query env ctx0 = (res, ctx1) \<Longrightarrow> stub_view (resources ctx1) = stub_view (resources ctx0)"
  by (auto simp: compile_query_def bind_st_def bind_err_def
           split: pyval.splits sum.splits prod.splits dest!: get_resources_stubs)

lemma run_statement_resources:
  "run_statement cfg env sql vals ctx = (res, ctx') \<Longrightarrow> resources ctx' = resources ctx"
  by (auto simp: run_statement_def Let_def split: sum.splits prod.splits option.splits if_splits)

lemma execute_query_stubs:
  "execute_query cfg env ctx = (res, ctx') \<Longrightarrow> stub_view (resources ctx') = stub_view (resources ctx)"
  by (auto simp: execute_query_def bind_st_def split: sum.splits prod.splits
           dest!: compile_query_stubs run_statement_resources)

lemma execute_queue_stubs:
  "execute_queue cfg env qs ctx = (res, (qs', ctx')) \<Longrightarrow>
     stub_view (resources ctx') = stub_view (resources ctx)"
proof (induction qs arbitrary: ctx res qs' ctx')
  case Nil
  then show ?case by simp
next
  case (Cons q qs)
  obtain r1 ctx1 where step: "execute_query cfg env (ctx\<lparr>query := q\<rparr>) = (r1, ctx1)"
    by (cases "execute_query cfg env (ctx\<lparr>query := q\<rparr>)")
  have a: "stub_view (resources ctx1) = stub_view (resources ctx)"
    using execute_query_stubs [OF step] by simp
  show ?case
  proof (cases r1)
    case (Inl e)
    with Cons.prems step a show ?thesis by simp
  next
    case (Inr pr)
    obtain r2 qs2 ctx2 where rest: "execute_queue cfg env qs ctx1 = (r2, (qs2, ctx2))"
      by (cases "execute_queue cfg env qs ctx1") auto
    then have "stub_view (resources ctx2) = stub_view (resources ctx1)" by (rule Cons.IH)
    moreover have "ctx' = ctx2"
      using Cons.prems step Inr rest by (auto split: sum.splits)
    ultimately show ?thesis using a by simp
  qed
qed

lemma resolve_resource_first_reference:
  assumes "resolve_resource env r st c = (Inr st1, c1)" "resource_ref r = Inr (n, a)"
      and "map_of (metadata c) n = None"
  shows "\<exists>db desc. map_of (resources c) n = Some db \<and> describeResource env n = Inr desc \<and>
           map_of (resources c1) n =
             Some (db\<lparr>alias_key := Some (''t'' @ str_nat (length (metadata c) + 1)),
                      srid_key := Some (desc_srid desc),
                      geometry_column_key := Some (desc_geometry_column desc),
                      fields_key := Some (desc_fields desc)\<rparr>) \<and>
           map_of (metadata c1) n =
             Some \<lparr>d_stub = stub db, d_alias = ''t'' @ str_nat (length (metadata c) + 1),
                   d_srid = desc_srid desc, d_geometry_column = desc_geometry_column desc,
                   d_fields = desc_fields desc\<rparr>"
  using assms
  by (auto simp: resolve_resource_def Let_def update_conv' split: option.splits sum.splits)

lemma resolve_resource_cache_shared:
  "resolve_resource env r st ctx = (res, ctx') \<Longrightarrow> cache_shared md0 ctx \<Longrightarrow> cache_shared md0 ctx'"
  by (auto simp: resolve_resource_def Let_def cache_shared_def agrees_def update_conv'
           split: sum.splits option.splits prod.splits if_splits)

lemma resolve_resources_cache_shared:
  "resolve_resources env rs st ctx = (res, ctx') \<Longrightarrow> cache_shared md0 ctx \<Longrightarrow> cache_shared md0 ctx'"
proof (induction rs arbitrary: st ctx)
  case Nil
  then show ?case by simp
next
  case (Cons r rs)
  obtain res1 ctx1 where step: "resolve_resource env r st ctx = (res1, ctx1)"
    by (cases "resolve_resource env r st ctx")
  have a: "cache_shared md0 ctx1"
    using step Cons.prems(2) by (rule resolve_resource_cache_shared)
  show ?case
  proof (cases res1)
    case (Inl e)
    with Cons.prems step a show ?thesis by simp
  next
    case (Inr st1)
    with Cons.prems step have "resolve_resources env rs st1 ctx1 = (res, ctx')" by simp
    then show ?thesis using a by (rule Cons.IH)
  qed
qed

lemma cache_shared_query [simp]: "cache_shared md0 (ctx\<lparr>query := q\<rparr>) = cache_shared md0 ctx"
  by (simp add: cache_shared_def)

lemma get_resources_cache_shared:
  "get_resources env q ctx = (res, ctx') \<Longrightarrow> cache_shared md0 ctx \<Longrightarrow> cache_shared md0 ctx'"
  by (auto simp: get_resources_def split: option.splits pyval.splits
           dest: resolve_resources_cache_shared)

lemma compile_query_cache_shared:
  "compile_query env ctx0 = (res, ctx1) \<Longrightarrow> cache_shared md0 ctx0 \<Longrightarrow> cache_shared md0 ctx1"
  by (auto simp: compile_query_def bind_st_def bind_err_def
           split: pyval.splits sum.splits prod.splits dest: get_resources_cache_shared)

lemma run_statement_cache_shared:
  "run_statement cfg env sql vals ctx = (res, ctx') \<Longrightarrow> cache_shared md0 ctx \<Longrightarrow> cache_shared md0 ctx'"
  by (auto simp: run_statement_def Let_def cache_shared_def
           split: sum.splits prod.splits option.splits if_splits)

lemma execute_query_cache_shared:
  "execute_query cfg env ctx = (res, ctx') \<Longrightarrow> cache_shared md0 ctx \<Longrightarrow> cache_shared md0 ctx'"
  by (auto simp: execute_query_def bind_st_def split: sum.splits prod.splits
           dest: compile_query_cache_shared run_statement_cache_shared)

lemma execute_queue_cache_shared:
  "execute_queue cfg env qs ctx = (res, (qs', ctx')) \<Longrightarrow> cache_shared md0 ctx
     \<Longrightarrow> cache_shared md0 ctx'"
proof (induction qs arbitrary: ctx res qs' ctx')
  case Nil
  then show ?case by simp
next
  case (Cons q qs)
  obtain r1 ctx1 where step: "execute_query cfg env (ctx\<lparr>query := q\<rparr>) = (r1, ctx1)"
    by (cases "execute_query cfg env (ctx\<lparr>query := q\<rparr>)")
  have a: "cache_shared md0 ctx1"
    using execute_query_cache_shared [OF step] Cons.prems(2) by simp
  show ?case
  proof (cases r1)
    case (Inl e)
    with Cons.prems step a show ?thesis by simp
  next
    case (Inr pr)
    obtain r2 qs2 ctx2 where rest: "execute_queue cfg env qs ctx1 = (r2, (qs2, ctx2))"
      by (cases "execute_queue cfg env qs ctx1") auto
    then have "cache_shared md0 ctx2" using a by (rule Cons.IH)
    moreover have "ctx' = ctx2"
      using Cons.prems step Inr rest by (auto split: sum.splits)
    ultimately show ?thesis by simp
  qed
qed

text \<open>
  C7, as amended. For every resource stub produced by catalog discovery, the attributes
  \<^verbatim>\<open>table\<close>, \<^verbatim>\<open>resource_name\<close>, \<^verbatim>\<open>package_title\<close>, \<^verbatim>\<open>package_notes\<close>, \<^verbatim>\<open>wms\<close>,
  \<^verbatim>\<open>wms_server\<close>, \<^verbatim>\<open>wms_layer\<close> and \<^verbatim>\<open>geometry_type\<close> are, at the end of the batch and
  whether it returns or raises, what catalog discovery made them, and no entry of
  \<^verbatim>\<open>context['resources']\<close> is added or removed. Compiling does change the entries: the
  first reference to a resource writes the keys \<^verbatim>\<open>alias\<close> (\<^verbatim>\<open>t\<close> and one more than the size
  of the metadata cache), \<^verbatim>\<open>srid\<close>, \<^verbatim>\<open>geometry_column\<close> and \<^verbatim>\<open>fields\<close> (what
  \<^verbatim>\<open>describeResource\<close> returns) into the stub's entry and stores the entry in the metadata
  cache, so that at the end of the batch every resource added to the cache is the entry of
  \<^verbatim>\<open>context['resources']\<close>, key by key.
\<close>

theorem stub_attributes_unchanged:
  "(\<forall>ctx. batch_context (execute cfg env doc md) = Some ctx \<longrightarrow>
      (\<exists>rs. getResources env = Inr rs \<and> stub_view (resources ctx) = stub_view rs) \<and>
      (\<forall>n d. map_of (metadata ctx) n = Some d \<and> map_of md n = None \<longrightarrow>
         (\<exists>r. map_of (resources ctx) n = Some r \<and> agrees r d))) \<and>
   (\<forall>r st c st1 c1 n a.
      resolve_resource env r st c = (Inr st1, c1) \<and> resource_ref r = Inr (n, a) \<and>
      map_of (metadata c) n = None \<longrightarrow>
      (\<exists>db desc. map_of (resources c) n = Some db \<and> describeResource env n = Inr desc \<and>
         map_of (resources c1) n =
           Some (db\<lparr>alias_key := Some (''t'' @ str_nat (length (metadata c) + 1)),
                    srid_key := Some (desc_srid desc),
                    geometry_column_key := Some (desc_geometry_column desc),
                    fields_key := Some (desc_fields desc)\<rparr>) \<and>
         map_of (metadata c1) n =
           Some \<lparr>d_stub = stub db, d_alias = ''t'' @ str_nat (length (metadata c) + 1),
                 d_srid = desc_srid desc, d_geometry_column = desc_geometry_column desc,
                 d_fields = desc_fields desc\<rparr>))"
proof (intro conjI allI impI)
  fix ctx assume c: "batch_context (execute cfg env doc md) = Some ctx"
  from execute_context [OF c] obtain target fmt queue rs r queue1 where
    rs: "getResources env = Inr rs"
    and run: "execute_queue cfg env queue
         \<lparr>query = PNone, output_format = fmt, crs = target, resources = rs,
          metadata = md, elapsed_time = 0, statements = []\<rparr> = (r, (queue1, ctx))"
    by blast
  from execute_queue_stubs [OF run] rs
  show "\<exists>rs. getResources env = Inr rs \<and> stub_view (resources ctx) = stub_view rs" by simp
  have "cache_shared md \<lparr>query = PNone, output_format = fmt, crs = target, resources = rs,
          metadata = md, elapsed_time = 0, statements = []\<rparr>"
    by (auto simp: cache_shared_def)
  with run have cs: "cache_shared md ctx" by (rule execute_queue_cache_shared)
  fix n d assume "map_of (metadata ctx) n = Some d \<and> map_of md n = None"
  with cs show "\<exists>r. map_of (resources ctx) n = Some r \<and> agrees r d"
    by (auto simp: cache_shared_def)
next
  fix r st c st1 c1 n a
  assume "resolve_resource env r st c = (Inr st1, c1) \<and> resource_ref r = Inr (n, a) \<and>
      map_of (metadata c) n = None"
  then show "\<exists>db desc. map_of (resources c) n = Some db \<and> describeResource env n = Inr desc \<and>
         map_of (resources c1) n =
           Some (db\<lparr>alias_key := Some (''t'' @ str_nat (length (metadata c) + 1)),
                    srid_key := Some (desc_srid desc),
                    geometry_column_key := Some (desc_geometry_column desc),
                    fields_key := Some (desc_fields desc)\<rparr>) \<and>
         map_of (metadata c1) n =
           Some \<lparr>d_stub = stub db, d_alias = ''t'' @ str_nat (length (metadata c) + 1),
                 d_srid = desc_srid desc, d_geometry_column = desc_geometry_column desc,
                 d_fields = desc_fields desc\<rparr>"
    using resolve_resource_first_reference by blast
qed


theorem stub_attributes_unchanged_witness:
  "\<exists>ctx r. batch_context (execute cfg_w env_w [(''queue'', PList [roads_query])] []) = Some ctx \<and>
     stub_view (resources ctx) = stub_view (case getResources env_w of Inr rs \<Rightarrow> rs | Inl e \<Rightarrow> []) \<and>
     map_of (resources ctx) ''roads'' = Some r \<and>
     alias_key r = Some ''t1'' \<and> srid_key r = Some (Some 2100) \<and>
     geometry_column_key r = Some (Some ''geom'') \<and>
     fields_key r = Some [(''geom'', \<lparr>f_name = ''geom'', f_type = ''geometry''\<rparr>),
                          (''name'', \<lparr>f_name = ''name'', f_type = ''varchar''\<rparr>)]"
proof -
  obtain ctx d where c: "batch_context (execute cfg_w env_w [(''queue'', PList [roads_query])] []) = Some ctx"
    and m: "map_of (metadata ctx) ''roads'' = Some d"
    and d: "d_alias d = ''t1''" "d_srid d = Some 2100" "d_geometry_column d = Some ''geom''"
      "d_fields d = [(''geom'', \<lparr>f_name = ''geom'', f_type = ''geometry''\<rparr>),
                     (''name'', \<lparr>f_name = ''name'', f_type = ''varchar''\<rparr>)]"
    by (simp add: model_defs inputs)
  have e: "map_of ([] :: (string \<times> descriptor) list) ''roads'' = None" by simp
  from stub_attributes_unchanged [of cfg_w env_w "[(''queue'', PList [roads_query])]" "[]",
      THEN conjunct1, rule_format, OF c]
  obtain rs where rs: "getResources env_w = Inr rs"
    and sv: "stub_view (resources ctx) = stub_view rs"
    and sh: "\<forall>n d. map_of (metadata ctx) n = Some d \<and> map_of ([] :: (string \<times> descriptor) list) n = None \<longrightarrow>
         (\<exists>r. map_of (resources ctx) n = Some r \<and> agrees r d)"
    by blast
  from sh m e obtain r where r: "map_of (resources ctx) ''roads'' = Some r" and a: "agrees r d"
    by blast
  from c rs sv r a d show ?thesis
    by (auto simp: agrees_def)
qed

text \<open>
  C7, as stated, fails: compiling a query on \<^verbatim>\<open>roads\<close> writes the alias \<^verbatim>\<open>t1\<close> into the
  entry of \<^verbatim>\<open>roads\<close> in \<^verbatim>\<open>context['resources']\<close>, which catalog discovery made without
  that key.
\<close>

theorem resource_entry_changed:
  "map_option (\<lambda>ctx. map (\<lambda>(n, r). (n, alias_key r)) (resources ctx))
     (batch_context (execute cfg_w env_w [(''queue'', PList [roads_query])] []))
     = Some [(''roads'', Some ''t1''), (''lakes'', None)] \<and>
   map_sum id (map (\<lambda>(n, r). (n, alias_key r))) (getResources env_w)
     = Inr [(''roads'', None), (''lakes'', None)]"
  by (simp add: model_defs inputs)

subsection \<open>What a compiled query is made of\<close>

lemma compile_query_parts:
  assumes "compile_query env ctx0 = (Inr c, ctx1)"
  shows "\<exists>q st ctxr q1 fs filters q2 sort_list.
           query ctx0 = PDict q \<and>
           get_limit q = Inr (sql_limit c) \<and> get_offset q = Inr (sql_offset c) \<and>
           get_resources env q ctx0 = (Inr st, ctxr) \<and>
           expand_fields (query_metadata st) q = Inr (q1, fs) \<and>
           get_fields (query_metadata st) (resource_mapping st) [] fs = Inr (projection c) \<and>
           check_geom_columns (output_format ctx0) (projection c) = Inr () \<and>
           get_filters env (query_metadata st) (resource_mapping st) q1 = (Inr filters, q2) \<and>
           get_sort (query_metadata st) (resource_mapping st) (projection c) q2 = Inr sort_list \<and>
           build_sql env (crs ctx0) (projection c) (parsed_resources st) filters sort_list
             (sql_limit c) (sql_offset c) = (sql_text c, sql_values c) \<and>
           ctx1 = ctxr\<lparr>query := PDict q2\<rparr>"
  using assms
  by (auto simp: compile_query_def bind_st_def bind_err_def same_run_def
           split: pyval.splits sum.splits prod.splits dest!: get_resources_same_run)



lemma build_sql_suffix:
  "build_sql env target parsed res filters sort_list limit offset = (sql, vals) \<Longrightarrow>
     \<exists>pre. sql = pre @ '' limit '' @ py_str env limit @ '' offset '' @ py_str env offset @ '';''"
proof -
  assume "build_sql env target parsed res filters sort_list limit offset = (sql, vals)"
  then have "sql = (''select distinct '' @ join '','' (map (\<lambda>(a, pf). select_field target pf) parsed)
      @ '' from '' @ join '','' (map from_table res) @ '' ''
      @ (if length (map fst filters) > 0 then ''where '' @ join '' AND '' (map fst filters) else [])
      @ '' '' @ (if length sort_list > 0 then ''order by '' @ join '', '' sort_list else []))
      @ '' limit '' @ py_str env limit @ '' offset '' @ py_str env offset @ '';''"
    by (simp add: build_sql_def Let_def)
  then show ?thesis by blast
qed

lemma get_limit_cases:
  "get_limit q = Inr l \<Longrightarrow>
     (map_of q ''limit'' = None \<longrightarrow> l = PInt 10000) \<and>
     (\<forall>v. map_of q ''limit'' = Some v \<longrightarrow> is_number v \<and>
        (0 < num_val v \<and> num_val v < 10000 \<longrightarrow> l = v) \<and>
        (10000 \<le> num_val v \<or> num_val v \<le> 0 \<longrightarrow> l = PInt 10000))"
  by (auto simp: get_limit_def MAX_RESULT_ROWS_def split: option.splits if_splits)

lemma get_offset_cases:
  "get_offset q = Inr l \<Longrightarrow>
     (map_of q ''offset'' = None \<longrightarrow> l = PInt 0) \<and>
     (\<forall>v. map_of q ''offset'' = Some v \<longrightarrow> is_number v \<and>
        (0 \<le> num_val v \<longrightarrow> l = v) \<and> (num_val v < 0 \<longrightarrow> l = PInt 0))"
  by (auto simp: get_offset_def split: option.splits if_splits)

lemma compile_query_not_number:
  assumes "query ctx0 = PDict q"
      and "(map_of q ''limit'' = Some v \<or> map_of q ''offset'' = Some v) \<and> \<not> is_number v"
  shows "\<exists>m. compile_query env ctx0 = (Inl (DataException m), ctx0)"
proof (cases "get_limit q")
  case (Inl e)
  then obtain m where "e = DataException m"
    by (auto simp: get_limit_def split: option.splits if_splits)
  with Inl assms(1) show ?thesis by (simp add: compile_query_def)
next
  case (Inr l)
  with assms(2) have o: "map_of q ''offset'' = Some v" "\<not> is_number v"
    by (auto simp: get_limit_def split: option.splits if_splits)
  then have "get_offset q = Inl (DataException ''Parameter offset must be a number.'')"
    by (simp add: get_offset_def)
  with Inr assms(1) show ?thesis by (simp add: compile_query_def)
qed

text \<open>
  C9: for a query with numeric \<^verbatim>\<open>limit\<close> and \<^verbatim>\<open>offset\<close>, the compiled statement ends in
  \<^verbatim>\<open>limit L offset O;\<close> where \<open>L\<close> is the given limit when it lies strictly between 0 and
  10000, and 10000 when it is 10000 or more, at most 0 or missing, and \<open>O\<close> is the given
  offset when it is at least 0, and 0 when it is negative or missing; a query that compiles
  has a numeric limit and offset, and a limit or an offset that is not a number makes
  \<^verbatim>\<open>_execute_query\<close> raise a \<^verbatim>\<open>DataException\<close>.
\<close>

theorem limit_offset_boundaries:
  assumes "query ctx0 = PDict q"
  shows "(\<forall>c ctx1. compile_query env ctx0 = (Inr c, ctx1) \<longrightarrow>
            (\<exists>pre. sql_text c = pre @ '' limit '' @ py_str env (sql_limit c) @ '' offset ''
                      @ py_str env (sql_offset c) @ '';'') \<and>
            (map_of q ''limit'' = None \<longrightarrow> sql_limit c = PInt 10000) \<and>
            (\<forall>v. map_of q ''limit'' = Some v \<longrightarrow> is_number v \<and>
               (0 < num_val v \<and> num_val v < 10000 \<longrightarrow> sql_limit c = v) \<and>
               (10000 \<le> num_val v \<or> num_val v \<le> 0 \<longrightarrow> sql_limit c = PInt 10000)) \<and>
            (map_of q ''offset'' = None \<longrightarrow> sql_offset c = PInt 0) \<and>
            (\<forall>v. map_of q ''offset'' = Some v \<longrightarrow> is_number v \<and>
               (0 \<le> num_val v \<longrightarrow> sql_offset c = v) \<and>
               (num_val v < 0 \<longrightarrow> sql_offset c = PInt 0))) \<and>
         (\<forall>v. (map_of q ''limit'' = Some v \<or> map_of q ''offset'' = Some v) \<and> \<not> is_number v \<longrightarrow>
            (\<exists>m. compile_query env ctx0 = (Inl (DataException m), ctx0)) \<and>
            (\<exists>m. execute_query cfg env ctx0 = (Inl (DataException m), ctx0)))"
proof -
  have compiled: "\<forall>c ctx1. compile_query env ctx0 = (Inr c, ctx1) \<longrightarrow>
            (\<exists>pre. sql_text c = pre @ '' limit '' @ py_str env (sql_limit c) @ '' offset ''
                      @ py_str env (sql_offset c) @ '';'') \<and>
            (map_of q ''limit'' = None \<longrightarrow> sql_limit c = PInt 10000) \<and>
            (\<forall>v. map_of q ''limit'' = Some v \<longrightarrow> is_number v \<and>
               (0 < num_val v \<and> num_val v < 10000 \<longrightarrow> sql_limit c = v) \<and>
               (10000 \<le> num_val v \<or> num_val v \<le> 0 \<longrightarrow> sql_limit c = PInt 10000)) \<and>
            (map_of q ''offset'' = None \<longrightarrow> sql_offset c = PInt 0) \<and>
            (\<forall>v. map_of q ''offset'' = Some v \<longrightarrow> is_number v \<and>
               (0 \<le> num_val v \<longrightarrow> sql_offset c = v) \<and>
               (num_val v < 0 \<longrightarrow> sql_offset c = PInt 0))"
  proof (intro allI impI)
    fix c ctx1 assume comp: "compile_query env ctx0 = (Inr c, ctx1)"
  from compile_query_parts [OF comp] obtain q' st ctxr q1 fs filters q2 sort_list where
    "query ctx0 = PDict q'"
    and lim': "get_limit q' = Inr (sql_limit c)" and off': "get_offset q' = Inr (sql_offset c)"
    and "get_resources env q' ctx0 = (Inr st, ctxr)"
    and "expand_fields (query_metadata st) q' = Inr (q1, fs)"
    and "get_fields (query_metadata st) (resource_mapping st) [] fs = Inr (projection c)"
    and "check_geom_columns (output_format ctx0) (projection c) = Inr ()"
    and "get_filters env (query_metadata st) (resource_mapping st) q1 = (Inr filters, q2)"
    and "get_sort (query_metadata st) (resource_mapping st) (projection c) q2 = Inr sort_list"
    and sql: "build_sql env (crs ctx0) (projection c) (parsed_resources st) filters sort_list
             (sql_limit c) (sql_offset c) = (sql_text c, sql_values c)"
    by blast
    with assms have lim: "get_limit q = Inr (sql_limit c)"
      and off: "get_offset q = Inr (sql_offset c)"
      by simp_all
    note l = get_limit_cases [OF lim] and o = get_offset_cases [OF off]
    show "(\<exists>pre. sql_text c = pre @ '' limit '' @ py_str env (sql_limit c) @ '' offset ''
                      @ py_str env (sql_offset c) @ '';'') \<and>
            (map_of q ''limit'' = None \<longrightarrow> sql_limit c = PInt 10000) \<and>
            (\<forall>v. map_of q ''limit'' = Some v \<longrightarrow> is_number v \<and>
               (0 < num_val v \<and> num_val v < 10000 \<longrightarrow> sql_limit c = v) \<and>
               (10000 \<le> num_val v \<or> num_val v \<le> 0 \<longrightarrow> sql_limit c = PInt 10000)) \<and>
            (map_of q ''offset'' = None \<longrightarrow> sql_offset c = PInt 0) \<and>
            (\<forall>v. map_of q ''offset'' = Some v \<longrightarrow> is_number v \<and>
               (0 \<le> num_val v \<longrightarrow> sql_offset c = v) \<and>
               (num_val v < 0 \<longrightarrow> sql_offset c = PInt 0))"
    proof (intro conjI)
      show "\<exists>pre. sql_text c = pre @ '' limit '' @ py_str env (sql_limit c) @ '' offset ''
                      @ py_str env (sql_offset c) @ '';''"
        using sql by (rule build_sql_suffix)
    qed (use l o in blast)+
  qed
  have raised: "\<forall>v. (map_of q ''limit'' = Some v \<or> map_of q ''offset'' = Some v) \<and> \<not> is_number v \<longrightarrow>
            (\<exists>m. compile_query env ctx0 = (Inl (DataException m), ctx0)) \<and>
            (\<exists>m. execute_query cfg env ctx0 = (Inl (DataException m), ctx0))"
  proof (intro allI impI)
    fix v assume v: "(map_of q ''limit'' = Some v \<or> map_of q ''offset'' = Some v) \<and> \<not> is_number v"
    from compile_query_not_number [OF assms v] obtain m where
      "compile_query env ctx0 = (Inl (DataException m), ctx0)" by blast
    then show "(\<exists>m. compile_query env ctx0 = (Inl (DataException m), ctx0)) \<and>
            (\<exists>m. execute_query cfg env ctx0 = (Inl (DataException m), ctx0))"
      by (auto simp: execute_query_def)
  qed
  from compiled raised show ?thesis by (rule conjI)
qed

theorem limit_offset_boundaries_witness:
  "\<exists>c ctx1. compile_query env_w (ctx_w\<lparr>query := limit_query\<rparr>) = (Inr c, ctx1) \<and>
     sql_limit c = PInt 25 \<and> sql_offset c = PInt 0 \<and> sql_text c = limit_query_sql"
proof -
  have q: "query (ctx_w\<lparr>query := limit_query\<rparr>) =
      PDict [(''resources'', PList [PStr ''roads'']), (''limit'', PInt 25), (''offset'', PInt (- 3))]"
    by (simp add: limit_query_def)
  obtain c ctx1 where comp: "compile_query env_w (ctx_w\<lparr>query := limit_query\<rparr>) = (Inr c, ctx1)"
    and text_c: "sql_text c = limit_query_sql"
    by (simp add: model_defs inputs limit_query_def limit_query_sql_def)
  from limit_offset_boundaries [OF q, of env_w, THEN conjunct1, rule_format, OF comp]
  have "sql_limit c = PInt 25" and "sql_offset c = PInt 0" by simp_all
  with comp text_c show ?thesis by blast
qed

subsection \<open>GeoJSON features\<close>













subsection \<open>The query document after compilation\<close>




































end
